theory Spec2Isabelle
  imports Main "HOL-Library.AList"
begin

section \<open>Python values, exceptions and the built-ins the builders call\<close>

text \<open>
  \<open>json.load\<close> hands \<open>JsonDocBuilder\<close> a tree of Python objects: \<open>None\<close>, booleans,
  integers, strings, lists and dictionaries with string keys. The same values fill the
  dynamically typed fields of the documentation model. A dictionary is an association
  list in insertion order in which the first binding of a key is the one that counts.
  JSON numbers with a fraction or an exponent (Python floats) are not represented.
  Strings are lists of 8-bit characters.
\<close>

datatype pyval =
    PNone
  | PBool bool
  | PInt int
  | PStr string
  | PList "pyval list"
  | PDict "(string \<times> pyval) list"

text \<open>
  \<open>DataError\<close> is \<open>robot.errors.DataError\<close>, the only exception the builders raise
  themselves; its argument is the message. The others are the built-in exceptions
  of the Python operations used (\<open>KeyError\<close> carries the missing key), and
  \<open>OSError\<close> and \<open>ParseError\<close> are what opening and parsing a file may raise.
\<close>

datatype error =
    DataError string
  | KeyError pyval
  | TypeError
  | AttributeError
  | ValueError
  | OSError
  | ParseError

definition ebind :: "error + 'a \<Rightarrow> ('a \<Rightarrow> error + 'b) \<Rightarrow> error + 'b" where
  \<comment> \<open>Sequencing: an exception raised by the first computation ends the whole one.\<close>
  "ebind m f = (case m of Inl e \<Rightarrow> Inl e | Inr x \<Rightarrow> f x)"

fun for_loop :: "('s \<Rightarrow> 'a \<Rightarrow> error + 's) \<Rightarrow> 's \<Rightarrow> 'a list \<Rightarrow> error + 's" where
  \<comment> \<open>\<open>for x in xs: body\<close>, the body updating the state \<open>s\<close>.\<close>
  "for_loop body s [] = Inr s"
| "for_loop body s (x # xs) = ebind (body s x) (\<lambda>s'. for_loop body s' xs)"

fun list_comp :: "('a \<Rightarrow> error + 'b) \<Rightarrow> 'a list \<Rightarrow> error + 'b list" where
  \<comment> \<open>\<open>[f(x) for x in xs]\<close>, evaluated left to right.\<close>
  "list_comp f [] = Inr []"
| "list_comp f (x # xs) =
     ebind (f x) (\<lambda>y. ebind (list_comp f xs) (\<lambda>ys. Inr (y # ys)))"

definition py_getitem :: "pyval \<Rightarrow> string \<Rightarrow> error + pyval" where
  \<comment> \<open>\<open>d[key]\<close> with a string key: only a dictionary can be subscripted by a string.\<close>
  "py_getitem d k =
     (case d of
        PDict kvs \<Rightarrow> (case map_of kvs k of None \<Rightarrow> Inl (KeyError (PStr k)) | Some v \<Rightarrow> Inr v)
      | _ \<Rightarrow> Inl TypeError)"

definition py_get :: "pyval \<Rightarrow> string \<Rightarrow> pyval \<Rightarrow> error + pyval" where
  \<comment> \<open>\<open>d.get(key, default)\<close>: only a dictionary has the method.\<close>
  "py_get d k dflt =
     (case d of
        PDict kvs \<Rightarrow> (case map_of kvs k of None \<Rightarrow> Inr dflt | Some v \<Rightarrow> Inr v)
      | _ \<Rightarrow> Inl AttributeError)"

definition py_iter :: "pyval \<Rightarrow> error + pyval list" where
  \<comment> \<open>The items a \<open>for\<close> loop, a comprehension or \<open>tuple()\<close> draws from a value:
      the elements of a list, the keys of a dictionary, the characters of a string.\<close>
  "py_iter v =
     (case v of
        PList xs \<Rightarrow> Inr xs
      | PDict kvs \<Rightarrow> Inr (map PStr (remdups (map fst kvs)))
      | PStr s \<Rightarrow> Inr (map (\<lambda>c. PStr [c]) s)
      | _ \<Rightarrow> Inl TypeError)"

definition dict_key :: "pyval \<Rightarrow> error + pyval" where
  \<comment> \<open>Hashing a dictionary key: lists and dictionaries are unhashable; \<open>True\<close> and
      \<open>False\<close> are the same keys as \<open>1\<close> and \<open>0\<close>, so a key is stored as the integer.\<close>
  "dict_key k =
     (case k of
        PList _ \<Rightarrow> Inl TypeError
      | PDict _ \<Rightarrow> Inl TypeError
      | PBool b \<Rightarrow> Inr (PInt (if b then 1 else 0))
      | _ \<Rightarrow> Inr k)"

definition dict_setitem :: "(pyval \<times> 'v) list \<Rightarrow> pyval \<Rightarrow> 'v \<Rightarrow> error + (pyval \<times> 'v) list" where
  \<comment> \<open>\<open>d[k] = v\<close>: a present key keeps its place, a new one goes last.\<close>
  "dict_setitem d k v = ebind (dict_key k) (\<lambda>k'. Inr (AList.update k' v d))"

subsection \<open>\<open>int()\<close>\<close>

text \<open>
  \<open>int(s)\<close> of a string of 8-bit characters: the whitespace it skips on both sides is
  tab, line feed, vertical tab, form feed, carriage return and space, and its digits
  are \<open>0\<close> to \<open>9\<close>. The whitespace and the decimal digits beyond ASCII, which \<open>int()\<close>
  accepts too, have no 8-bit character.
\<close>

definition is_space :: "char \<Rightarrow> bool" where
  "is_space c = (let n = (of_char c :: nat) in (9 \<le> n \<and> n \<le> 13) \<or> n = 32)"

definition is_digit :: "char \<Rightarrow> bool" where
  "is_digit c = (let n = (of_char c :: nat) in 48 \<le> n \<and> n \<le> 57)"

definition digit_val :: "char \<Rightarrow> nat" where
  "digit_val c = of_char c - 48"

definition strip :: "string \<Rightarrow> string" where
  "strip s = rev (dropWhile is_space (rev (dropWhile is_space s)))"

fun digits_from :: "nat \<Rightarrow> string \<Rightarrow> nat option" where
  \<comment> \<open>The rest of a decimal literal after a digit: digits, each possibly preceded by
      one underscore.\<close>
  "digits_from acc [] = Some acc"
| "digits_from acc [c] = (if is_digit c then Some (10 * acc + digit_val c) else None)"
| "digits_from acc (c # d # ds) =
     (if is_digit c then digits_from (10 * acc + digit_val c) (d # ds)
      else if c = CHR ''_'' \<and> is_digit d then digits_from (10 * acc + digit_val d) ds
      else None)"

definition int_of_str :: "string \<Rightarrow> error + int" where
  \<comment> \<open>\<open>int(s)\<close> for a string: surrounding whitespace, an optional sign, decimal digits.\<close>
  "int_of_str s =
     (let t = strip s;
          neg = (case t of c # _ \<Rightarrow> c = CHR ''-'' | [] \<Rightarrow> False);
          body = (case t of c # r \<Rightarrow> if c = CHR ''-'' \<or> c = CHR ''+'' then r else t | [] \<Rightarrow> t)
      in case body of
           [] \<Rightarrow> Inl ValueError
         | c # cs \<Rightarrow>
             if is_digit c then
               (case digits_from (digit_val c) cs of
                  None \<Rightarrow> Inl ValueError
                | Some n \<Rightarrow> Inr (if neg then - int n else int n))
             else Inl ValueError)"

definition py_int :: "pyval \<Rightarrow> error + int" where
  \<comment> \<open>\<open>int(v)\<close>.\<close>
  "py_int v =
     (case v of
        PInt n \<Rightarrow> Inr n
      | PBool b \<Rightarrow> Inr (if b then 1 else 0)
      | PStr s \<Rightarrow> int_of_str s
      | _ \<Rightarrow> Inl TypeError)"

subsection \<open>Element trees\<close>

text \<open>
  What \<open>ET.parse(source).getroot()\<close> returns: an element has a tag, attributes, the text
  before its first child (\<open>None\<close> when there is none) and its children in document order.
\<close>

datatype element =
  Element (el_tag: string) (el_attrib: "(string \<times> string) list")
          (el_text: "string option") (el_children: "element list")

definition el_get :: "element \<Rightarrow> string \<Rightarrow> string option" where
  \<comment> \<open>\<open>elem.get(key)\<close>\<close>
  "el_get e k = map_of (el_attrib e) k"

definition el_find :: "element \<Rightarrow> string \<Rightarrow> element option" where
  \<comment> \<open>\<open>elem.find(tag)\<close>: the first child with the tag.\<close>
  "el_find e t = List.find (\<lambda>c. el_tag c = t) (el_children e)"

fun el_findall :: "element \<Rightarrow> string list \<Rightarrow> element list" where
  \<comment> \<open>\<open>elem.findall('a/b/c')\<close>, the path given by its steps \<open>[a, b, c]\<close>.\<close>
  "el_findall e [] = [e]"
| "el_findall e (t # ts) =
     concat (map (\<lambda>c. el_findall c ts) (filter (\<lambda>c. el_tag c = t) (el_children e)))"

definition opt_str :: "string option \<Rightarrow> pyval" where
  \<comment> \<open>An attribute value or element text as a Python value.\<close>
  "opt_str x = (case x of None \<Rightarrow> PNone | Some s \<Rightarrow> PStr s)"

definition str_or :: "string option \<Rightarrow> string \<Rightarrow> string" where
  \<comment> \<open>\<open>x or dflt\<close> for an optional string: \<open>None\<close> and the empty string are false.\<close>
  "str_or x dflt = (case x of None \<Rightarrow> dflt | Some s \<Rightarrow> if s = [] then dflt else s)"

definition find_text :: "element \<Rightarrow> string \<Rightarrow> error + pyval" where
  \<comment> \<open>\<open>elem.find(tag).text or ''\<close>: reading \<open>.text\<close> of a missing child fails.\<close>
  "find_text e t =
     (case el_find e t of
        None \<Rightarrow> Inl AttributeError
      | Some c \<Rightarrow> Inr (PStr (str_or (el_text c) [])))"

definition upper :: "string \<Rightarrow> string" where
  \<comment> \<open>\<open>str.upper()\<close>\<close>
  "upper s = map (\<lambda>c. let n = (of_char c :: nat)
                       in if 97 \<le> n \<and> n \<le> 122 then char_of (n - 32) else c) s"

section \<open>The documentation model\<close>

text \<open>
  Modelled from the spec: \<open>robot.running.ArgInfo\<close> is not among the sources. Its seven
  kind constants are the tokens of the closed set of section 4.3 of the specification,
  under the names the builders use for them.
\<close>

definition POSITIONAL_ONLY :: string where
  "POSITIONAL_ONLY = ''POSITIONAL_ONLY''"

definition POSITIONAL_ONLY_MARKER :: string where
  "POSITIONAL_ONLY_MARKER = ''POSITIONAL_ONLY_SEPARATOR''"

definition POSITIONAL_OR_NAMED :: string where
  "POSITIONAL_OR_NAMED = ''POSITIONAL_OR_NAMED''"

definition VAR_POSITIONAL :: string where
  "VAR_POSITIONAL = ''VARIADIC_POSITIONAL''"

definition NAMED_ONLY_MARKER :: string where
  "NAMED_ONLY_MARKER = ''NAMED_ONLY_SEPARATOR''"

definition NAMED_ONLY :: string where
  "NAMED_ONLY = ''NAMED_ONLY''"

definition VAR_NAMED :: string where
  "VAR_NAMED = ''VARIADIC_NAMED''"

text \<open>
  Modelled from the spec: \<open>robot.running.ArgumentSpec\<close> is not among the sources. It is
  the ParameterSpec of section 3: three ordered groups, two single-name slots (\<open>None\<close>
  when unset), the defaults and the types, both dictionaries keyed by name. A type
  entry is a tuple, here a list. \<open>ArgumentSpec()\<close> has every group empty.
\<close>

record ArgumentSpec =
  positional_only :: "pyval list"
  positional_or_named :: "pyval list"
  var_positional :: pyval
  named_only :: "pyval list"
  var_named :: pyval
  defaults :: "(pyval \<times> pyval) list"
  types :: "(pyval \<times> pyval list) list"

definition ArgumentSpec_init :: ArgumentSpec where
  "ArgumentSpec_init =
     \<lparr>positional_only = [], positional_or_named = [], var_positional = PNone,
      named_only = [], var_named = PNone, defaults = [], types = []\<rparr>"

text \<open>
  Modelled from the spec: \<open>KeywordDoc\<close> and \<open>LibraryDoc\<close> of \<open>model.py\<close> and the classes
  of \<open>datatypes.py\<close> are not among the sources. They are the CallableDoc, LibraryDocument
  and DataTypeDoc of section 3, holding what the builders pass to their constructors;
  the sequences of keywords are kept as given and the data types form a set.
\<close>

record KeywordDoc =
  kw_name :: pyval
  kw_args :: ArgumentSpec
  kw_doc :: pyval
  kw_shortdoc :: pyval
  kw_tags :: pyval
  kw_source :: pyval
  kw_lineno :: int

datatype EnumMember = EnumMember (member_name: pyval) (member_value: pyval)

datatype TypedDictItem = TypedDictItem (item_key: pyval) (item_type: pyval) (required: pyval)

datatype DataTypeDoc =
    EnumDoc pyval pyval "EnumMember list"
  | TypedDictDoc (td_name: pyval) (td_doc: pyval) (td_items: "TypedDictItem list")
  | CustomDoc pyval pyval

record LibraryDoc =
  lib_name :: pyval
  lib_type :: pyval
  lib_version :: pyval
  lib_doc :: pyval
  lib_scope :: pyval
  lib_doc_format :: pyval
  lib_source :: pyval
  lib_lineno :: int
  lib_inits :: "KeywordDoc list"
  lib_keywords :: "KeywordDoc list"
  lib_data_types :: "DataTypeDoc set"

section \<open>The parameter reconstructor\<close>

definition setters :: "(string \<times> (pyval \<Rightarrow> ArgumentSpec \<Rightarrow> ArgumentSpec)) list" where
  \<comment> \<open>The \<open>setters\<close> dictionary of both \<open>_create_arguments\<close>: what each kind does with
      the name \<open>value\<close>.\<close>
  "setters =
     [(POSITIONAL_ONLY, \<lambda>value spec. spec\<lparr>positional_only := positional_only spec @ [value]\<rparr>),
      (POSITIONAL_ONLY_MARKER, \<lambda>value spec. spec),
      (POSITIONAL_OR_NAMED,
         \<lambda>value spec. spec\<lparr>positional_or_named := positional_or_named spec @ [value]\<rparr>),
      (VAR_POSITIONAL, \<lambda>value spec. spec\<lparr>var_positional := value\<rparr>),
      (NAMED_ONLY_MARKER, \<lambda>value spec. spec),
      (NAMED_ONLY, \<lambda>value spec. spec\<lparr>named_only := named_only spec @ [value]\<rparr>),
      (VAR_NAMED, \<lambda>value spec. spec\<lparr>var_named := value\<rparr>)]"

definition setters_getitem :: "pyval \<Rightarrow> error + (pyval \<Rightarrow> ArgumentSpec \<Rightarrow> ArgumentSpec)" where
  \<comment> \<open>\<open>setters[kind]\<close>: an unhashable kind is a \<open>TypeError\<close>, any other value that is
      not one of the seven strings a \<open>KeyError\<close>.\<close>
  "setters_getitem kind =
     (case kind of
        PStr s \<Rightarrow> (case map_of setters s of None \<Rightarrow> Inl (KeyError kind) | Some f \<Rightarrow> Inr f)
      | PList _ \<Rightarrow> Inl TypeError
      | PDict _ \<Rightarrow> Inl TypeError
      | _ \<Rightarrow> Inl (KeyError kind))"

definition Json_arg_body :: "ArgumentSpec \<Rightarrow> pyval \<Rightarrow> error + ArgumentSpec" where
  \<comment> \<open>The body of the loop of \<open>JsonDocBuilder._create_arguments\<close>.\<close>
  "Json_arg_body spec arg =
     ebind (py_getitem arg ''name'') (\<lambda>name.
     ebind (py_getitem arg ''kind'') (\<lambda>kind.
     ebind (setters_getitem kind) (\<lambda>setter.
     let spec = setter name spec in
     ebind (py_get arg ''defaultValue'' PNone) (\<lambda>dflt.
     ebind (if dflt \<noteq> PNone
            then ebind (dict_setitem (defaults spec) name dflt) (\<lambda>d. Inr (spec\<lparr>defaults := d\<rparr>))
            else Inr spec) (\<lambda>spec.
     ebind (py_getitem arg ''types'') (\<lambda>arg_types.
     let spec = (if types spec = [] then spec\<lparr>types := []\<rparr> else spec) in
     ebind (py_iter arg_types) (\<lambda>tuple.
     ebind (dict_setitem (types spec) name tuple) (\<lambda>t. Inr (spec\<lparr>types := t\<rparr>)))))))))"

definition Json_create_arguments :: "pyval \<Rightarrow> error + ArgumentSpec" where
  \<comment> \<open>\<open>JsonDocBuilder._create_arguments\<close>\<close>
  "Json_create_arguments arguments =
     ebind (py_iter arguments) (for_loop Json_arg_body ArgumentSpec_init)"

definition Xml_arg_body :: "ArgumentSpec \<Rightarrow> element \<Rightarrow> error + ArgumentSpec" where
  \<comment> \<open>The body of the loop of \<open>XmlDocBuilder._create_arguments\<close>.\<close>
  "Xml_arg_body spec arg =
     (case el_find arg ''name'' of
        None \<Rightarrow> Inr spec
      | Some name_elem \<Rightarrow>
          let name = opt_str (el_text name_elem) in
          ebind (setters_getitem (opt_str (el_get arg ''kind''))) (\<lambda>setter.
          let spec = setter name spec in
          ebind (case el_find arg ''default'' of
                   None \<Rightarrow> Inr spec
                 | Some default_elem \<Rightarrow>
                     ebind (dict_setitem (defaults spec) name
                              (PStr (str_or (el_text default_elem) [])))
                       (\<lambda>d. Inr (spec\<lparr>defaults := d\<rparr>))) (\<lambda>spec.
          let type_elems = el_findall arg [''type''];
              spec = (if types spec = [] then spec\<lparr>types := []\<rparr> else spec) in
          ebind (dict_setitem (types spec) name (map (\<lambda>t. opt_str (el_text t)) type_elems))
            (\<lambda>t. Inr (spec\<lparr>types := t\<rparr>)))))"

definition Xml_create_arguments :: "element \<Rightarrow> error + ArgumentSpec" where
  \<comment> \<open>\<open>XmlDocBuilder._create_arguments\<close>\<close>
  "Xml_create_arguments elem =
     for_loop Xml_arg_body ArgumentSpec_init (el_findall elem [''arguments'', ''arg''])"

section \<open>The environment\<close>

text \<open>
  The builders reach the file system through \<open>os.path.isfile\<close> and through reading and
  parsing a file (\<open>json.load\<close> of the opened file, \<open>ET.parse(...).getroot()\<close>), both of
  which may raise. These three are the environment of a build.
\<close>

record env =
  isfile :: "string \<Rightarrow> bool"
  json_load :: "string \<Rightarrow> error + pyval"
  et_parse :: "string \<Rightarrow> error + element"

section \<open>\<open>JsonDocBuilder\<close>\<close>

definition Json_create_keyword :: "pyval \<Rightarrow> error + KeywordDoc" where
  \<comment> \<open>\<open>JsonDocBuilder._create_keyword\<close>\<close>
  "Json_create_keyword kw =
     ebind (py_get kw ''name'' PNone) (\<lambda>name.
     ebind (ebind (py_getitem kw ''args'') Json_create_arguments) (\<lambda>args.
     ebind (py_getitem kw ''doc'') (\<lambda>doc.
     ebind (py_getitem kw ''shortdoc'') (\<lambda>shortdoc.
     ebind (py_getitem kw ''tags'') (\<lambda>tags.
     ebind (py_getitem kw ''source'') (\<lambda>source.
     ebind (ebind (py_get kw ''lineno'' (PInt (- 1))) py_int) (\<lambda>lineno.
     Inr \<lparr>kw_name = name, kw_args = args, kw_doc = doc, kw_shortdoc = shortdoc,
          kw_tags = tags, kw_source = source, kw_lineno = lineno\<rparr>)))))))"

definition Json_create_enum_doc :: "pyval \<Rightarrow> error + DataTypeDoc" where
  \<comment> \<open>\<open>JsonDocBuilder._create_enum_doc\<close>\<close>
  "Json_create_enum_doc data =
     ebind (py_getitem data ''name'') (\<lambda>name.
     ebind (py_getitem data ''doc'') (\<lambda>doc.
     ebind (py_getitem data ''members'') (\<lambda>ms.
     ebind (py_iter ms) (\<lambda>ms.
     ebind (list_comp (\<lambda>member.
              ebind (py_getitem member ''name'') (\<lambda>n.
              ebind (py_getitem member ''value'') (\<lambda>v.
              Inr (EnumMember n v)))) ms) (\<lambda>members.
     Inr (EnumDoc name doc members))))))"

definition Json_typed_dict_item :: "pyval \<Rightarrow> error + TypedDictItem" where
  \<comment> \<open>The item expression of the comprehension in \<open>JsonDocBuilder._create_typed_dict_doc\<close>.\<close>
  "Json_typed_dict_item item =
     ebind (py_getitem item ''key'') (\<lambda>k.
     ebind (py_getitem item ''type'') (\<lambda>t.
     ebind (py_get item ''required'' PNone) (\<lambda>r.
     Inr (TypedDictItem k t r))))"

definition Json_create_typed_dict_doc :: "pyval \<Rightarrow> error + DataTypeDoc" where
  \<comment> \<open>\<open>JsonDocBuilder._create_typed_dict_doc\<close>\<close>
  "Json_create_typed_dict_doc data =
     ebind (py_getitem data ''name'') (\<lambda>name.
     ebind (py_getitem data ''doc'') (\<lambda>doc.
     ebind (py_getitem data ''items'') (\<lambda>its.
     ebind (py_iter its) (\<lambda>its.
     ebind (list_comp Json_typed_dict_item its) (\<lambda>items.
     Inr (TypedDictDoc name doc items))))))"

definition Json_create_custom_doc :: "pyval \<Rightarrow> error + DataTypeDoc" where
  \<comment> \<open>\<open>JsonDocBuilder._create_custom_doc\<close>\<close>
  "Json_create_custom_doc data =
     ebind (py_getitem data ''name'') (\<lambda>name.
     ebind (py_getitem data ''doc'') (\<lambda>doc.
     Inr (CustomDoc name doc)))"

definition Json_create_data_types :: "pyval \<Rightarrow> error + DataTypeDoc list" where
  \<comment> \<open>\<open>JsonDocBuilder._create_data_types\<close>\<close>
  "Json_create_data_types data_types =
     ebind (ebind (ebind (py_get data_types ''enums'' (PList [])) py_iter)
              (list_comp Json_create_enum_doc)) (\<lambda>enums.
     ebind (ebind (ebind (py_get data_types ''typedDicts'' (PList [])) py_iter)
              (list_comp Json_create_typed_dict_doc)) (\<lambda>typed_dicts.
     ebind (ebind (ebind (py_get data_types ''customs'' (PList [])) py_iter)
              (list_comp Json_create_custom_doc)) (\<lambda>customs.
     Inr (enums @ typed_dicts @ customs))))"

definition Json_build_from_dict :: "pyval \<Rightarrow> error + LibraryDoc" where
  \<comment> \<open>\<open>JsonDocBuilder.build_from_dict\<close>\<close>
  "Json_build_from_dict spec =
     ebind (py_getitem spec ''name'') (\<lambda>name.
     ebind (py_getitem spec ''doc'') (\<lambda>doc.
     ebind (py_getitem spec ''version'') (\<lambda>version.
     ebind (py_getitem spec ''type'') (\<lambda>type.
     ebind (py_getitem spec ''scope'') (\<lambda>scope.
     ebind (py_getitem spec ''docFormat'') (\<lambda>doc_format.
     ebind (py_getitem spec ''source'') (\<lambda>source.
     ebind (ebind (py_get spec ''lineno'' (PInt (- 1))) py_int) (\<lambda>lineno.
     ebind (ebind (ebind (py_getitem spec ''inits'') py_iter)
              (list_comp Json_create_keyword)) (\<lambda>inits.
     ebind (ebind (ebind (py_getitem spec ''keywords'') py_iter)
              (list_comp Json_create_keyword)) (\<lambda>keywords.
     ebind (ebind (py_getitem spec ''dataTypes'') Json_create_data_types) (\<lambda>data_types.
     Inr \<lparr>lib_name = name, lib_type = type, lib_version = version, lib_doc = doc,
          lib_scope = scope, lib_doc_format = doc_format, lib_source = source,
          lib_lineno = lineno, lib_inits = inits, lib_keywords = keywords,
          lib_data_types = set data_types\<rparr>)))))))))))"

definition Json_parse_spec_json :: "env \<Rightarrow> string \<Rightarrow> error + pyval" where
  \<comment> \<open>\<open>JsonDocBuilder._parse_spec_json\<close>\<close>
  "Json_parse_spec_json E path =
     (if \<not> isfile E path
      then Inl (DataError (''Spec file '' @ [CHR 0x27] @ path @ [CHR 0x27] @ '' does not exist.''))
      else json_load E path)"

definition Json_build :: "env \<Rightarrow> string \<Rightarrow> error + LibraryDoc" where
  \<comment> \<open>\<open>JsonDocBuilder.build\<close>\<close>
  "Json_build E path = ebind (Json_parse_spec_json E path) Json_build_from_dict"

section \<open>\<open>XmlDocBuilder\<close>\<close>

definition Xml_parse_spec :: "env \<Rightarrow> string \<Rightarrow> error + element" where
  \<comment> \<open>\<open>XmlDocBuilder._parse_spec\<close>; the f-string prints a missing version as \<open>None\<close>.\<close>
  "Xml_parse_spec E path =
     (if \<not> isfile E path
      then Inl (DataError (''Spec file '' @ [CHR 0x27] @ path @ [CHR 0x27] @ '' does not exist.''))
      else
        ebind (et_parse E path) (\<lambda>root.
        if el_tag root \<noteq> ''keywordspec''
        then Inl (DataError (''Invalid spec file '' @ [CHR 0x27] @ path @ [CHR 0x27] @ ''.''))
        else
          let version = el_get root ''specversion'' in
          if version \<notin> {Some ''3'', Some ''4''}
          then Inl (DataError (''Invalid spec file version '' @ [CHR 0x27]
                                @ (case version of None \<Rightarrow> ''None'' | Some v \<Rightarrow> v) @ [CHR 0x27]
                                @ ''. Supported versions are 3 and 4.''))
          else Inr root))"

definition Xml_create_keyword :: "element \<Rightarrow> pyval \<Rightarrow> error + KeywordDoc" where
  \<comment> \<open>\<open>XmlDocBuilder._create_keyword\<close>\<close>
  "Xml_create_keyword elem lib_src =
     (let name = PStr (case el_get elem ''name'' of None \<Rightarrow> [] | Some n \<Rightarrow> n) in
      ebind (Xml_create_arguments elem) (\<lambda>args.
      ebind (find_text elem ''doc'') (\<lambda>doc.
      ebind (find_text elem ''shortdoc'') (\<lambda>shortdoc.
      let tags = PList (map (\<lambda>t. opt_str (el_text t)) (el_findall elem [''tags'', ''tag'']));
          source = (case el_get elem ''source'' of
                      None \<Rightarrow> lib_src
                    | Some s \<Rightarrow> if s = [] then lib_src else PStr s) in
      ebind (py_int (case el_get elem ''lineno'' of None \<Rightarrow> PInt (- 1) | Some l \<Rightarrow> PStr l))
        (\<lambda>lineno.
      Inr \<lparr>kw_name = name, kw_args = args, kw_doc = doc, kw_shortdoc = shortdoc,
           kw_tags = tags, kw_source = source, kw_lineno = lineno\<rparr>)))))"

definition Xml_create_keywords :: "element \<Rightarrow> string list \<Rightarrow> pyval \<Rightarrow> error + KeywordDoc list" where
  \<comment> \<open>\<open>XmlDocBuilder._create_keywords\<close>\<close>
  "Xml_create_keywords spec path lib_src =
     list_comp (\<lambda>elem. Xml_create_keyword elem lib_src) (el_findall spec path)"

definition Xml_create_enum_doc :: "element \<Rightarrow> error + DataTypeDoc" where
  \<comment> \<open>\<open>XmlDocBuilder._create_enum_doc\<close>\<close>
  "Xml_create_enum_doc elem =
     ebind (find_text elem ''doc'') (\<lambda>doc.
     Inr (EnumDoc (opt_str (el_get elem ''name'')) doc
            (map (\<lambda>member. EnumMember (opt_str (el_get member ''name''))
                                        (opt_str (el_get member ''value'')))
                 (el_findall elem [''members'', ''member'']))))"

definition Xml_typed_dict_item :: "element \<Rightarrow> TypedDictItem" where
  \<comment> \<open>The body of the loop of \<open>XmlDocBuilder._create_typed_dict_doc\<close>.\<close>
  "Xml_typed_dict_item item =
     (let required = (case el_get item ''required'' of
                        None \<Rightarrow> PNone
                      | Some r \<Rightarrow> PBool (r = ''true''))
      in TypedDictItem (opt_str (el_get item ''key'')) (opt_str (el_get item ''type'')) required)"

definition Xml_create_typed_dict_doc :: "element \<Rightarrow> error + DataTypeDoc" where
  \<comment> \<open>\<open>XmlDocBuilder._create_typed_dict_doc\<close>\<close>
  "Xml_create_typed_dict_doc elem =
     (let items = map Xml_typed_dict_item (el_findall elem [''items'', ''item'']) in
      ebind (find_text elem ''doc'') (\<lambda>doc.
      Inr (TypedDictDoc (opt_str (el_get elem ''name'')) doc items)))"

definition Xml_create_custom_doc :: "element \<Rightarrow> error + DataTypeDoc" where
  \<comment> \<open>\<open>XmlDocBuilder._create_custom_doc\<close>\<close>
  "Xml_create_custom_doc elem =
     ebind (find_text elem ''doc'') (\<lambda>doc.
     Inr (CustomDoc (opt_str (el_get elem ''name'')) doc))"

definition Xml_create_data_types :: "element \<Rightarrow> error + DataTypeDoc list" where
  \<comment> \<open>\<open>XmlDocBuilder._create_data_types\<close>\<close>
  "Xml_create_data_types spec =
     ebind (list_comp Xml_create_enum_doc
              (el_findall spec [''datatypes'', ''enums'', ''enum''])) (\<lambda>enums.
     ebind (list_comp Xml_create_typed_dict_doc
              (el_findall spec [''datatypes'', ''typeddicts'', ''typeddict''])) (\<lambda>typed_dicts.
     ebind (list_comp Xml_create_custom_doc
              (el_findall spec [''datatypes'', ''customs'', ''custom''])) (\<lambda>custom.
     Inr (enums @ typed_dicts @ custom))))"

definition Xml_lineno :: "element \<Rightarrow> error + int" where
  \<comment> \<open>\<open>int(spec.get('lineno')) or -1\<close>: \<open>int(None)\<close> is a \<open>TypeError\<close>.\<close>
  "Xml_lineno spec =
     ebind (py_int (opt_str (el_get spec ''lineno''))) (\<lambda>n.
     Inr (if n = 0 then - 1 else n))"

definition Xml_build :: "env \<Rightarrow> string \<Rightarrow> error + LibraryDoc" where
  \<comment> \<open>\<open>XmlDocBuilder.build\<close>\<close>
  "Xml_build E path =
     ebind (Xml_parse_spec E path) (\<lambda>spec.
     let name = opt_str (el_get spec ''name'') in
     ebind (case el_get spec ''type'' of
              None \<Rightarrow> Inl AttributeError
            | Some t \<Rightarrow> Inr (PStr (upper t))) (\<lambda>type.
     ebind (find_text spec ''version'') (\<lambda>version.
     ebind (find_text spec ''doc'') (\<lambda>doc.
     let scope = opt_str (el_get spec ''scope'');
         doc_format = PStr (str_or (el_get spec ''format'') ''ROBOT'');
         source = opt_str (el_get spec ''source'') in
     ebind (Xml_lineno spec) (\<lambda>lineno.
     ebind (Xml_create_keywords spec [''inits'', ''init''] source) (\<lambda>inits.
     ebind (Xml_create_keywords spec [''keywords'', ''kw''] source) (\<lambda>keywords.
     ebind (Xml_create_data_types spec) (\<lambda>data_types.
     Inr \<lparr>lib_name = name, lib_type = type, lib_version = version, lib_doc = doc,
          lib_scope = scope, lib_doc_format = doc_format, lib_source = source,
          lib_lineno = lineno, lib_inits = inits, lib_keywords = keywords,
          lib_data_types = set data_types\<rparr>))))))))"

section \<open>Reading a parameter record\<close>

text \<open>
  The properties speak of the name, the kind, the default and the type names of a
  parameter record. These are the values the loop bodies read, by the same accessors;
  where an accessor fails the reading is \<open>None\<close> (or no types), which never happens for
  a record that the loop has processed.
\<close>

definition recognized_kinds :: "string list" where
  \<comment> \<open>The keys of \<open>setters\<close>: the seven kinds.\<close>
  "recognized_kinds = map fst setters"

definition Json_name :: "pyval \<Rightarrow> pyval" where
  \<comment> \<open>\<open>arg['name']\<close>\<close>
  "Json_name r = (case py_getitem r ''name'' of Inr n \<Rightarrow> n | Inl _ \<Rightarrow> PNone)"

definition Json_kind :: "pyval \<Rightarrow> pyval" where
  \<comment> \<open>\<open>arg['kind']\<close>\<close>
  "Json_kind r = (case py_getitem r ''kind'' of Inr n \<Rightarrow> n | Inl _ \<Rightarrow> PNone)"

definition Json_key :: "pyval \<Rightarrow> pyval" where
  \<comment> \<open>The key under which the defaults and the types hold the name.\<close>
  "Json_key r = (case dict_key (Json_name r) of Inr k \<Rightarrow> k | Inl _ \<Rightarrow> PNone)"

definition Json_default :: "pyval \<Rightarrow> pyval" where
  \<comment> \<open>\<open>arg.get('defaultValue')\<close>: \<open>None\<close> for a record without a default.\<close>
  "Json_default r = (case py_get r ''defaultValue'' PNone of Inr d \<Rightarrow> d | Inl _ \<Rightarrow> PNone)"

definition Json_types :: "pyval \<Rightarrow> pyval list" where
  \<comment> \<open>\<open>tuple(arg['types'])\<close>\<close>
  "Json_types r = (case ebind (py_getitem r ''types'') py_iter of Inr ts \<Rightarrow> ts | Inl _ \<Rightarrow> [])"

definition Json_kind_ok :: "pyval \<Rightarrow> bool" where
  \<comment> \<open>The record has a kind and it is one of the seven.\<close>
  "Json_kind_ok r = (py_getitem r ''kind'' \<in> (\<lambda>k. Inr (PStr k)) ` set recognized_kinds)"

definition Json_wellformed :: "pyval \<Rightarrow> bool" where
  \<comment> \<open>A dictionary with a hashable name, one of the seven kinds and iterable types.\<close>
  "Json_wellformed r =
     (\<not> isl (ebind (py_getitem r ''name'') dict_key)
      \<and> py_getitem r ''kind'' \<in> (\<lambda>k. Inr (PStr k)) ` set recognized_kinds
      \<and> \<not> isl (ebind (py_getitem r ''types'') py_iter))"

definition Json_is_separator :: "pyval \<Rightarrow> bool" where
  "Json_is_separator r =
     (Json_kind r = PStr POSITIONAL_ONLY_MARKER \<or> Json_kind r = PStr NAMED_ONLY_MARKER)"

definition Xml_has_name :: "element \<Rightarrow> bool" where
  \<comment> \<open>\<open>arg.find('name') is not None\<close>: the records the XML loop does not skip.\<close>
  "Xml_has_name arg = (el_find arg ''name'' \<noteq> None)"

definition Xml_name :: "element \<Rightarrow> pyval" where
  \<comment> \<open>\<open>arg.find('name').text\<close>\<close>
  "Xml_name arg = (case el_find arg ''name'' of None \<Rightarrow> PNone | Some n \<Rightarrow> opt_str (el_text n))"

definition Xml_kind :: "element \<Rightarrow> pyval" where
  \<comment> \<open>\<open>arg.get('kind')\<close>\<close>
  "Xml_kind arg = opt_str (el_get arg ''kind'')"

definition Xml_default :: "element \<Rightarrow> pyval" where
  \<comment> \<open>\<open>default_elem.text or ''\<close>, and \<open>None\<close> for a record without a \<open>default\<close> child.\<close>
  "Xml_default arg =
     (case el_find arg ''default'' of None \<Rightarrow> PNone | Some d \<Rightarrow> PStr (str_or (el_text d) []))"

definition Xml_types :: "element \<Rightarrow> pyval list" where
  \<comment> \<open>\<open>tuple(t.text for t in arg.findall('type'))\<close>\<close>
  "Xml_types arg = map (\<lambda>t. opt_str (el_text t)) (el_findall arg [''type''])"

definition Xml_args :: "element \<Rightarrow> element list" where
  \<comment> \<open>The \<open>arg\<close> elements of a keyword that have a \<open>name\<close> child, in document order.\<close>
  "Xml_args elem = filter Xml_has_name (el_findall elem [''arguments'', ''arg''])"

definition Xml_kind_ok :: "element \<Rightarrow> bool" where
  "Xml_kind_ok a = (Xml_kind a \<in> PStr ` set recognized_kinds)"

definition Xml_bad_kind :: "element \<Rightarrow> bool" where
  "Xml_bad_kind arg = (Xml_has_name arg \<and> Xml_kind arg \<notin> PStr ` set recognized_kinds)"

definition Xml_is_separator :: "element \<Rightarrow> bool" where
  "Xml_is_separator a =
     (Xml_kind a = PStr POSITIONAL_ONLY_MARKER \<or> Xml_kind a = PStr NAMED_ONLY_MARKER)"

definition last_or :: "'a \<Rightarrow> 'a list \<Rightarrow> 'a" where
  \<comment> \<open>The last element of a list, and \<open>d\<close> for the empty list.\<close>
  "last_or d xs = (case xs of [] \<Rightarrow> d | _ \<Rightarrow> last xs)"


definition is_DataError :: "error \<Rightarrow> bool" where
  "is_DataError e = (case e of DataError _ \<Rightarrow> True | _ \<Rightarrow> False)"

subsection \<open>What one record does to the specification\<close>

text \<open>
  For the proofs: the effect of a processed record on the specification, as a function
  of what was read from it, and the effect of a sequence of records as a fold. The
  facts below show that the loops of both builders compute this fold.
\<close>

definition set_group :: "pyval \<Rightarrow> pyval \<Rightarrow> ArgumentSpec \<Rightarrow> ArgumentSpec" where
  "set_group name kind spec =
     spec\<lparr>positional_only :=
            positional_only spec @ (if kind = PStr POSITIONAL_ONLY then [name] else []),
          positional_or_named :=
            positional_or_named spec @ (if kind = PStr POSITIONAL_OR_NAMED then [name] else []),
          var_positional := (if kind = PStr VAR_POSITIONAL then name else var_positional spec),
          named_only := named_only spec @ (if kind = PStr NAMED_ONLY then [name] else []),
          var_named := (if kind = PStr VAR_NAMED then name else var_named spec)\<rparr>"

definition apply_param ::
  "pyval \<Rightarrow> pyval \<Rightarrow> pyval \<Rightarrow> pyval \<Rightarrow> pyval list \<Rightarrow> ArgumentSpec \<Rightarrow> ArgumentSpec" where
  "apply_param name kind key dflt tys spec =
     (set_group name kind spec)
       \<lparr>defaults := (if dflt = PNone then defaults spec else AList.update key dflt (defaults spec)),
        types := AList.update key tys (types spec)\<rparr>"

record param =
  p_name :: pyval
  p_kind :: pyval
  p_key :: pyval
  p_default :: pyval
  p_types :: "pyval list"

definition Json_param :: "pyval \<Rightarrow> param" where
  "Json_param r = \<lparr>p_name = Json_name r, p_kind = Json_kind r, p_key = Json_key r,
                   p_default = Json_default r, p_types = Json_types r\<rparr>"

definition Xml_param :: "element \<Rightarrow> param" where
  "Xml_param a = \<lparr>p_name = Xml_name a, p_kind = Xml_kind a, p_key = Xml_name a,
                  p_default = Xml_default a, p_types = Xml_types a\<rparr>"

definition apply_params :: "ArgumentSpec \<Rightarrow> param list \<Rightarrow> ArgumentSpec" where
  "apply_params spec ps =
     foldl (\<lambda>s p. apply_param (p_name p) (p_kind p) (p_key p) (p_default p) (p_types p) s) spec ps"

section \<open>Sample environments and documents\<close>

text \<open>Concrete file systems, documents and parameter records at which the properties
  below are instantiated.\<close>

definition no_files :: env where
  \<comment> \<open>A file system without any file.\<close>
  "no_files = \<lparr>isfile = (\<lambda>p. False), json_load = (\<lambda>p. Inl OSError),
                et_parse = (\<lambda>p. Inl OSError)\<rparr>"

definition unreadable_files :: env where
  \<comment> \<open>A file system in which every path is a file that cannot be opened.\<close>
  "unreadable_files = \<lparr>isfile = (\<lambda>p. True), json_load = (\<lambda>p. Inl OSError),
                        et_parse = (\<lambda>p. Inl OSError)\<rparr>"

definition xml_file :: "element \<Rightarrow> env" where
  \<comment> \<open>A file system in which every path is a file that parses to the given root.\<close>
  "xml_file root = \<lparr>isfile = (\<lambda>p. True), json_load = (\<lambda>p. Inl ParseError),
                     et_parse = (\<lambda>p. Inr root)\<rparr>"

definition library_spec :: "(string \<times> string) list \<Rightarrow> element" where
  \<comment> \<open>A library spec without keywords whose root has the given attributes besides
      name, type, format and scope.\<close>
  "library_spec attrs =
     Element ''keywordspec''
       ([(''name'', ''Lib''), (''type'', ''LIBRARY''), (''format'', ''ROBOT''),
         (''scope'', ''GLOBAL'')] @ attrs)
       None
       [Element ''version'' [] None [], Element ''doc'' [] (Some ''Docs'') [],
        Element ''tags'' [] None [], Element ''inits'' [] None [],
        Element ''keywords'' [] None [], Element ''datatypes'' [] None []]"

definition sample_kw :: "(string \<times> string) list \<Rightarrow> element" where
  \<comment> \<open>A keyword element without arguments that has the given attributes besides its name.\<close>
  "sample_kw attrs =
     Element ''kw'' ([(''name'', ''Run'')] @ attrs) None
       [Element ''arguments'' [] None [], Element ''doc'' [] (Some ''Runs.'') [],
        Element ''shortdoc'' [] (Some ''Runs.'') []]"

definition sample_typed_dict_json :: pyval where
  \<comment> \<open>A typed dictionary whose items have no, a true and a false \<open>required\<close>.\<close>
  "sample_typed_dict_json =
     PDict [(''name'', PStr ''Point''), (''doc'', PStr ''''),
            (''items'', PList [PDict [(''key'', PStr ''x''), (''type'', PStr ''int'')],
                               PDict [(''key'', PStr ''y''), (''type'', PStr ''int''),
                                      (''required'', PBool True)],
                               PDict [(''key'', PStr ''z''), (''type'', PStr ''int''),
                                      (''required'', PBool False)]])]"

definition sample_typed_dict_xml :: element where
  \<comment> \<open>The same typed dictionary as a \<open>typeddict\<close> element.\<close>
  "sample_typed_dict_xml =
     Element ''typeddict'' [(''name'', ''Point'')] None
       [Element ''doc'' [] None [],
        Element ''items'' [] None
          [Element ''item'' [(''key'', ''x''), (''type'', ''int'')] None [],
           Element ''item'' [(''key'', ''y''), (''type'', ''int''), (''required'', ''true'')] None [],
           Element ''item'' [(''key'', ''z''), (''type'', ''int''), (''required'', ''false'')] None []]]"

definition json_arg :: "string \<Rightarrow> string \<Rightarrow> string list \<Rightarrow> pyval \<Rightarrow> pyval" where
  \<comment> \<open>A parameter record as the JSON writer lays it out; \<open>PNone\<close> is a null default.\<close>
  "json_arg name kind tys dflt =
     PDict [(''name'', PStr name), (''types'', PList (map PStr tys)),
            (''defaultValue'', dflt), (''kind'', PStr kind)]"

definition xml_arg :: "string \<Rightarrow> string \<Rightarrow> string list \<Rightarrow> string option \<Rightarrow> element" where
  \<comment> \<open>An \<open>arg\<close> element with a \<open>name\<close> child, \<open>type\<close> children and possibly a \<open>default\<close>.\<close>
  "xml_arg name kind tys dflt =
     Element ''arg'' [(''kind'', kind)] None
       (Element ''name'' [] (Some name) []
        # map (\<lambda>t. Element ''type'' [] (Some t) []) tys
        @ (case dflt of None \<Rightarrow> [] | Some d \<Rightarrow> [Element ''default'' [] (Some d) []]))"

definition xml_marker :: "string \<Rightarrow> element" where
  \<comment> \<open>An \<open>arg\<close> element without children, as the XML writer emits separators.\<close>
  "xml_marker kind = Element ''arg'' [(''kind'', kind)] None []"

definition xml_kw :: "element list \<Rightarrow> element" where
  \<comment> \<open>A keyword element with the given \<open>arg\<close> elements.\<close>
  "xml_kw args =
     Element ''kw'' [(''name'', ''Run'')] None
       [Element ''arguments'' [] None args, Element ''doc'' [] None [],
        Element ''shortdoc'' [] None []]"

definition sample_args_json :: "pyval list" where
  \<comment> \<open>Parameter records of every kind, with two variadic-positional ones.\<close>
  "sample_args_json =
     [json_arg ''a'' ''POSITIONAL_ONLY'' [] PNone,
      json_arg '''' ''POSITIONAL_ONLY_SEPARATOR'' [] PNone,
      json_arg ''b'' ''POSITIONAL_OR_NAMED'' [''int''] (PStr ''1''),
      json_arg ''c'' ''POSITIONAL_OR_NAMED'' [] PNone,
      json_arg ''v'' ''VARIADIC_POSITIONAL'' [] PNone,
      json_arg ''w'' ''VARIADIC_POSITIONAL'' [] PNone,
      json_arg ''k'' ''NAMED_ONLY'' [''str'', ''None''] (PStr ''None''),
      json_arg ''m'' ''NAMED_ONLY'' [] PNone,
      json_arg ''kw'' ''VARIADIC_NAMED'' [] PNone]"

definition sample_args_xml :: "element list" where
  \<comment> \<open>The same parameters as \<open>arg\<close> elements, the separator without a \<open>name\<close> child.\<close>
  "sample_args_xml =
     [xml_arg ''a'' ''POSITIONAL_ONLY'' [] None,
      xml_marker ''POSITIONAL_ONLY_SEPARATOR'',
      xml_arg ''b'' ''POSITIONAL_OR_NAMED'' [''int''] (Some ''1''),
      xml_arg ''c'' ''POSITIONAL_OR_NAMED'' [] None,
      xml_arg ''v'' ''VARIADIC_POSITIONAL'' [] None,
      xml_arg ''w'' ''VARIADIC_POSITIONAL'' [] None,
      xml_arg ''k'' ''NAMED_ONLY'' [''str'', ''None''] (Some ''None''),
      xml_arg ''m'' ''NAMED_ONLY'' [] None,
      xml_arg ''kw'' ''VARIADIC_NAMED'' [] None]"


definition run_document :: "pyval list \<Rightarrow> pyval" where
  \<comment> \<open>A JSON document with the one keyword \<open>Run\<close> that has the given parameter records.\<close>
  "run_document args =
     PDict [(''name'', PStr ''Lib''), (''doc'', PStr ''A library.''), (''version'', PStr ''1.0''),
            (''type'', PStr ''LIBRARY''), (''scope'', PStr ''GLOBAL''),
            (''docFormat'', PStr ''ROBOT''), (''source'', PStr ''Lib.py''), (''lineno'', PInt 1),
            (''inits'', PList []),
            (''keywords'',
               PList [PDict [(''name'', PStr ''Run''), (''args'', PList args),
                             (''doc'', PStr ''Runs.''), (''shortdoc'', PStr ''Runs.''),
                             (''tags'', PList []), (''source'', PStr ''Lib.py''),
                             (''lineno'', PInt 3)]]),
            (''dataTypes'',
               PDict [(''enums'', PList []), (''typedDicts'', PList []), (''customs'', PList [])])]"

section \<open>Auxiliary facts\<close>

lemmas kind_defs = POSITIONAL_ONLY_def POSITIONAL_ONLY_MARKER_def POSITIONAL_OR_NAMED_def
  VAR_POSITIONAL_def NAMED_ONLY_MARKER_def NAMED_ONLY_def VAR_NAMED_def

lemma recognized_kinds_eq:
  "recognized_kinds = [POSITIONAL_ONLY, POSITIONAL_ONLY_MARKER, POSITIONAL_OR_NAMED,
                        VAR_POSITIONAL, NAMED_ONLY_MARKER, NAMED_ONLY, VAR_NAMED]"
  by (simp add: recognized_kinds_def setters_def)

lemma setters_getitem_Inr:
  assumes "setters_getitem kind = Inr f"
  shows "\<exists>k. kind = PStr k \<and> k \<in> set recognized_kinds"
    and "f name spec = set_group name kind spec"
  using assms
  by (cases spec;
      auto simp: setters_getitem_def setters_def recognized_kinds_def set_group_def kind_defs
      split: pyval.splits option.splits if_splits)+

lemma setters_getitem_ok:
  "k \<in> set recognized_kinds \<Longrightarrow> \<exists>f. setters_getitem (PStr k) = Inr f"
  by (auto simp: setters_getitem_def setters_def recognized_kinds_def kind_defs)

lemma setters_getitem_Inl:
  "setters_getitem kind = Inl e \<Longrightarrow> e = TypeError \<or> e = KeyError kind"
  by (auto simp: setters_getitem_def split: pyval.splits option.splits)


lemma ebind_Inr: "ebind m f = Inr y \<longleftrightarrow> (\<exists>x. m = Inr x \<and> f x = Inr y)"
  by (cases m) (simp_all add: ebind_def)

lemma ebind_Inl: "ebind m f = Inl e \<longleftrightarrow> (m = Inl e \<or> (\<exists>x. m = Inr x \<and> f x = Inl e))"
  by (cases m) (simp_all add: ebind_def)

lemma ebind_simps [simp]: "ebind (Inl e) f = Inl e" "ebind (Inr x) f = f x"
  by (simp_all add: ebind_def)

lemma dict_setitem_Inr:
  "dict_setitem d k v = Inr d' \<longleftrightarrow> (\<exists>k'. dict_key k = Inr k' \<and> d' = AList.update k' v d)"
  by (auto simp: dict_setitem_def ebind_Inr)

lemma Json_arg_body_Inr:
  assumes "Json_arg_body spec arg = Inr spec'"
  shows "spec' = apply_param (Json_name arg) (Json_kind arg) (Json_key arg) (Json_default arg)
                   (Json_types arg) spec"
    and "Json_wellformed arg"
proof -
  from assms obtain name kind setter dflt spec1 arg_types tuple t k where
    n: "py_getitem arg ''name'' = Inr name" and
    k: "py_getitem arg ''kind'' = Inr kind" and
    s: "setters_getitem kind = Inr setter" and
    d: "py_get arg ''defaultValue'' PNone = Inr dflt" and
    s1: "(if dflt \<noteq> PNone
          then ebind (dict_setitem (defaults (setter name spec)) name dflt)
                 (\<lambda>d. Inr ((setter name spec)\<lparr>defaults := d\<rparr>))
          else Inr (setter name spec)) = Inr spec1" and
    ty: "py_getitem arg ''types'' = Inr arg_types" and
    it: "py_iter arg_types = Inr tuple" and
    key: "dict_key name = Inr k" and
    fin: "spec' = (if types spec1 = [] then spec1\<lparr>types := []\<rparr> else spec1)
                    \<lparr>types := AList.update k tuple
                       (types (if types spec1 = [] then spec1\<lparr>types := []\<rparr> else spec1))\<rparr>"
    unfolding Json_arg_body_def Let_def ebind_Inr dict_setitem_Inr by blast
  have s1': "spec1 = (setter name spec)\<lparr>defaults :=
                 (if dflt = PNone then defaults (setter name spec)
                  else AList.update k dflt (defaults (setter name spec)))\<rparr>"
    using s1 key by (auto simp: ebind_Inr dict_setitem_Inr split: if_splits)
  have views: "Json_name arg = name" "Json_kind arg = kind" "Json_key arg = k"
    "Json_default arg = dflt" "Json_types arg = tuple"
    by (simp_all add: Json_name_def Json_kind_def Json_key_def Json_default_def Json_types_def
        n k key d ty it)
  have st: "setter name spec = set_group name kind spec"
    by (rule setters_getitem_Inr(2) [OF s])
  show "spec' = apply_param (Json_name arg) (Json_kind arg) (Json_key arg) (Json_default arg)
                   (Json_types arg) spec"
    unfolding views fin s1' st by (simp add: apply_param_def set_group_def)
  from setters_getitem_Inr(1) [OF s] show "Json_wellformed arg"
    by (auto simp: Json_wellformed_def n k key ty it)
qed


lemma not_isl_iff: "\<not> isl m \<longleftrightarrow> (\<exists>x. m = Inr x)"
  by (cases m) simp_all

lemma Json_arg_body_wf:
  assumes "Json_wellformed arg"
  shows "Json_arg_body spec arg
           = Inr (apply_param (Json_name arg) (Json_kind arg) (Json_key arg) (Json_default arg)
                    (Json_types arg) spec)"
proof -
  from assms obtain kvs where arg: "arg = PDict kvs"
    by (cases arg) (auto simp: Json_wellformed_def py_getitem_def)
  from assms obtain k where k: "py_getitem arg ''kind'' = Inr (PStr k)" "k \<in> set recognized_kinds"
    by (auto simp: Json_wellformed_def)
  from setters_getitem_ok [OF k(2)] obtain f where f: "setters_getitem (PStr k) = Inr f" ..
  have fd: "defaults (f n spec) = defaults spec" "types (f n spec) = types spec" for n
    by (simp_all add: setters_getitem_Inr(2) [OF f] set_group_def)
  from assms obtain name key where n: "py_getitem arg ''name'' = Inr name" "dict_key name = Inr key"
    by (auto simp: Json_wellformed_def not_isl_iff ebind_Inr)
  from assms obtain tys tuple where
    t: "py_getitem arg ''types'' = Inr tys" "py_iter tys = Inr tuple"
    by (auto simp: Json_wellformed_def not_isl_iff ebind_Inr)
  obtain dflt where d: "py_get arg ''defaultValue'' PNone = Inr dflt"
    by (cases "map_of kvs ''defaultValue''") (simp_all add: arg py_get_def)
  have "\<exists>s'. Json_arg_body spec arg = Inr s'"
    by (simp add: Json_arg_body_def Let_def k n t d f fd dict_setitem_def)
  then obtain s' where "Json_arg_body spec arg = Inr s'" ..
  with Json_arg_body_Inr(1) [OF this] show ?thesis by simp
qed

lemma py_getitem_Inl: "py_getitem d k = Inl e \<Longrightarrow> \<not> is_DataError e"
  by (auto simp: py_getitem_def is_DataError_def split: pyval.splits option.splits)

lemma py_get_Inl: "py_get d k x = Inl e \<Longrightarrow> \<not> is_DataError e"
  by (auto simp: py_get_def is_DataError_def split: pyval.splits option.splits)

lemma py_iter_Inl: "py_iter v = Inl e \<Longrightarrow> \<not> is_DataError e"
  by (auto simp: py_iter_def is_DataError_def split: pyval.splits)

lemma dict_key_Inl: "dict_key v = Inl e \<Longrightarrow> \<not> is_DataError e"
  by (auto simp: dict_key_def is_DataError_def split: pyval.splits)

lemma dict_setitem_Inl: "dict_setitem d k v = Inl e \<Longrightarrow> \<not> is_DataError e"
  by (auto simp: dict_setitem_def ebind_Inl dest: dict_key_Inl)

lemma setters_getitem_not_DataError: "setters_getitem kind = Inl e \<Longrightarrow> \<not> is_DataError e"
  by (auto dest!: setters_getitem_Inl simp: is_DataError_def)

lemma Json_arg_body_Inl:
  assumes "Json_arg_body spec arg = Inl e"
  shows "\<not> is_DataError e"
proof -
  have nd: "\<not> is_DataError e"
    if "(if c then ebind (dict_setitem d k v) f else Inr x) = Inl e" "\<And>y. f y \<noteq> Inl e"
    for c d k v x and f :: "(pyval \<times> pyval) list \<Rightarrow> error + ArgumentSpec"
    using that by (auto simp: ebind_Inl dest: dict_setitem_Inl split: if_splits)
  from assms show ?thesis
    unfolding Json_arg_body_def Let_def ebind_Inl [where e = e]
    apply (elim disjE exE conjE)
           apply (erule py_getitem_Inl)
          apply (erule py_getitem_Inl)
         apply (erule setters_getitem_not_DataError)
        apply (erule py_get_Inl)
       apply (erule nd, simp)
      apply (erule py_getitem_Inl)
     apply (erule py_iter_Inl)
    apply (erule dict_setitem_Inl)
    apply simp
    done
qed

section \<open>Building from a path\<close>

text \<open>
  C7, as the code has it. When \<open>os.path.isfile\<close> is false for the path, \<open>build\<close> of either
  builder raises a \<open>DataError\<close> with the message \<open>Spec file '<path>' does not exist.\<close>,
  which contains the path.
\<close>

theorem build_missing_file:
  assumes "\<not> isfile E path"
  shows "Json_build E path
           = Inl (DataError (''Spec file '' @ [CHR 0x27] @ path @ [CHR 0x27] @ '' does not exist.''))
       \<and> Xml_build E path
           = Inl (DataError (''Spec file '' @ [CHR 0x27] @ path @ [CHR 0x27] @ '' does not exist.''))"
  using assms
  by (simp add: Json_build_def Json_parse_spec_json_def Xml_build_def Xml_parse_spec_def)

theorem build_missing_file_witness:
  "\<not> isfile no_files ''lib.spec''
   \<and> Json_build no_files ''lib.spec'' = Inl (DataError ''Spec file 'lib.spec' does not exist.'')
   \<and> Xml_build no_files ''lib.spec'' = Inl (DataError ''Spec file 'lib.spec' does not exist.'')"
  using build_missing_file [of no_files "''lib.spec''"] by (simp add: no_files_def)

text \<open>
  C7 as stated fails: a file that exists and cannot be read passes the \<open>isfile\<close> test, and
  the error of opening it leaves \<open>build\<close> as it is, not as a \<open>DataError\<close>.
\<close>

theorem build_unreadable_counterexample:
  "isfile unreadable_files ''lib.spec''
   \<and> Json_build unreadable_files ''lib.spec'' = Inl OSError
   \<and> Xml_build unreadable_files ''lib.spec'' = Inl OSError"
  by (simp add: unreadable_files_def Json_build_def Json_parse_spec_json_def Xml_build_def
      Xml_parse_spec_def)

text \<open>
  C6. Once the file is there and parsed, \<open>XmlDocBuilder.build\<close> first checks the root:
  a tag other than \<open>keywordspec\<close> raises \<open>DataError\<close> with \<open>Invalid spec file '<path>'.\<close>;
  with the right tag, a \<open>specversion\<close> that is neither \<open>3\<close> nor \<open>4\<close> (or is missing, printed
  as \<open>None\<close>) raises \<open>DataError\<close> with
  \<open>Invalid spec file version '<v>'. Supported versions are 3 and 4.\<close> Whatever else the
  document holds or lacks plays no part.
\<close>

theorem Xml_build_validates:
  assumes "isfile E path" and "et_parse E path = Inr root"
  shows "(el_tag root \<noteq> ''keywordspec'' \<longrightarrow>
            Xml_build E path
              = Inl (DataError (''Invalid spec file '' @ [CHR 0x27] @ path @ [CHR 0x27] @ ''.'')))
       \<and> (el_tag root = ''keywordspec'' \<and> el_get root ''specversion'' \<notin> {Some ''3'', Some ''4''} \<longrightarrow>
            Xml_build E path
              = Inl (DataError (''Invalid spec file version '' @ [CHR 0x27]
                      @ (case el_get root ''specversion'' of None \<Rightarrow> ''None'' | Some v \<Rightarrow> v)
                      @ [CHR 0x27] @ ''. Supported versions are 3 and 4.'')))"
  using assms by (simp add: Xml_build_def Xml_parse_spec_def Let_def)

theorem Xml_build_validates_witness:
  "Xml_build (xml_file (Element ''html'' [(''specversion'', ''3'')] None [])) ''lib.xml''
     = Inl (DataError ''Invalid spec file 'lib.xml'.'')
   \<and> Xml_build (xml_file (library_spec [(''specversion'', ''2''), (''lineno'', ''1'')])) ''lib.xml''
     = Inl (DataError ''Invalid spec file version '2'. Supported versions are 3 and 4.'')
   \<and> Xml_build (xml_file (library_spec [(''lineno'', ''1'')])) ''lib.xml''
     = Inl (DataError ''Invalid spec file version 'None'. Supported versions are 3 and 4.'')"
  using Xml_build_validates [of "xml_file (Element ''html'' [(''specversion'', ''3'')] None [])" "''lib.xml''"
          "Element ''html'' [(''specversion'', ''3'')] None []"]
        Xml_build_validates [of "xml_file (library_spec [(''specversion'', ''2''), (''lineno'', ''1'')])"
          "''lib.xml''" "library_spec [(''specversion'', ''2''), (''lineno'', ''1'')]"]
        Xml_build_validates [of "xml_file (library_spec [(''lineno'', ''1'')])"
          "''lib.xml''" "library_spec [(''lineno'', ''1'')]"]
  by (simp add: xml_file_def library_spec_def el_get_def)

section \<open>Line numbers\<close>

lemma Xml_lineno_absent: "el_get spec ''lineno'' = None \<Longrightarrow> Xml_lineno spec = Inl TypeError"
  by (simp add: Xml_lineno_def opt_str_def py_int_def)

lemma Xml_lineno_present:
  "el_get spec ''lineno'' = Some l \<Longrightarrow> int_of_str l = Inr n \<Longrightarrow>
     Xml_lineno spec = Inr (if n = 0 then - 1 else n)"
  by (simp add: Xml_lineno_def opt_str_def py_int_def)

text \<open>
  C8. A library spec as the writer produces it for a library whose line number is
  unknown, that is without a \<open>lineno\<close> attribute on the root: \<open>int(None)\<close> raises
  \<open>TypeError\<close> and the build fails, where \<open>-1\<close> was meant.
\<close>

theorem Xml_build_without_lineno:
  "Xml_build (xml_file (library_spec [(''specversion'', ''4'')])) ''lib.xml'' = Inl TypeError"
  by (simp add: Xml_build_def Xml_parse_spec_def xml_file_def library_spec_def el_get_def
      find_text_def el_find_def Xml_lineno_def opt_str_def py_int_def)

text \<open>
  A build that succeeds had a \<open>lineno\<close> on the root; zero becomes \<open>-1\<close>, any other
  value is kept.
\<close>

lemma Xml_build_lineno:
  assumes "Xml_build E path = Inr lib"
  shows "\<exists>root l n. et_parse E path = Inr root \<and> el_get root ''lineno'' = Some l
           \<and> int_of_str l = Inr n \<and> lib_lineno lib = (if n = 0 then - 1 else n)"
proof -
  from assms obtain root where r: "Xml_parse_spec E path = Inr root"
    by (auto simp: Xml_build_def ebind_Inr)
  then have p: "et_parse E path = Inr root"
    by (auto simp: Xml_parse_spec_def ebind_Inr Let_def split: if_splits)
  from assms r obtain k where k: "Xml_lineno root = Inr k" "lib_lineno lib = k"
    by (auto simp: Xml_build_def ebind_Inr Let_def)
  from k(1) obtain l where l: "el_get root ''lineno'' = Some l"
    by (cases "el_get root ''lineno''") (auto simp: Xml_lineno_absent)
  from k(1) l obtain n where n: "int_of_str l = Inr n"
    by (cases "int_of_str l") (auto simp: Xml_lineno_def opt_str_def py_int_def)
  from Xml_lineno_present [OF l n] k p l n show ?thesis by auto
qed

lemmas int_of_str_eval = int_of_str_def strip_def is_space_def is_digit_def digit_val_def

text \<open>
  C10. The line number of a keyword or init built by \<open>XmlDocBuilder._create_keyword\<close> is
  \<open>-1\<close> when the element has no \<open>lineno\<close> attribute and otherwise the integer the
  attribute parses to: a value that parses to zero gives \<open>0\<close>, where the library-level
  expression \<open>int(...) or -1\<close> gives \<open>-1\<close>.
\<close>

theorem Xml_keyword_lineno:
  assumes "Xml_create_keyword elem lib_src = Inr kw"
  shows "(el_get elem ''lineno'' = None \<longrightarrow> kw_lineno kw = - 1)
       \<and> (\<forall>l. el_get elem ''lineno'' = Some l \<longrightarrow> int_of_str l = Inr (kw_lineno kw))
       \<and> (\<forall>l. el_get elem ''lineno'' = Some l \<and> int_of_str l = Inr 0 \<longrightarrow>
             kw_lineno kw = 0 \<and> Xml_lineno elem = Inr (- 1))"
proof -
  from assms have
    "py_int (case el_get elem ''lineno'' of None \<Rightarrow> PInt (- 1) | Some l \<Rightarrow> PStr l)
       = Inr (kw_lineno kw)"
    by (auto simp: Xml_create_keyword_def Let_def ebind_Inr)
  then have a: "el_get elem ''lineno'' = None \<longrightarrow> kw_lineno kw = - 1"
    and b: "\<forall>l. el_get elem ''lineno'' = Some l \<longrightarrow> int_of_str l = Inr (kw_lineno kw)"
    by (auto simp: py_int_def)
  from b have "\<forall>l. el_get elem ''lineno'' = Some l \<and> int_of_str l = Inr 0 \<longrightarrow>
             kw_lineno kw = 0 \<and> Xml_lineno elem = Inr (- 1)"
    by (auto simp: Xml_lineno_present)
  with a b show ?thesis by blast
qed

theorem Xml_keyword_lineno_witness:
  "(\<exists>kw. Xml_create_keyword (sample_kw [(''lineno'', ''0'')]) PNone = Inr kw \<and> kw_lineno kw = 0)
   \<and> Xml_lineno (sample_kw [(''lineno'', ''0'')]) = Inr (- 1)
   \<and> (\<exists>kw. Xml_create_keyword (sample_kw []) PNone = Inr kw \<and> kw_lineno kw = - 1)"
proof -
  have z: "int_of_str ''0'' = Inr 0"
    by (simp add: int_of_str_eval)
  have g: "el_get (sample_kw [(''lineno'', ''0'')]) ''lineno'' = Some ''0''"
    "el_get (sample_kw []) ''lineno'' = None"
    by (simp_all add: sample_kw_def el_get_def)
  have "\<exists>kw. Xml_create_keyword (sample_kw [(''lineno'', ''0'')]) PNone = Inr kw"
    by (simp add: Xml_create_keyword_def Xml_create_arguments_def sample_kw_def el_get_def
        find_text_def el_find_def py_int_def z)
  then obtain k0 where k0: "Xml_create_keyword (sample_kw [(''lineno'', ''0'')]) PNone = Inr k0" ..
  have "\<exists>kw. Xml_create_keyword (sample_kw []) PNone = Inr kw"
    by (simp add: Xml_create_keyword_def Xml_create_arguments_def sample_kw_def el_get_def
        find_text_def el_find_def py_int_def)
  then obtain k1 where k1: "Xml_create_keyword (sample_kw []) PNone = Inr k1" ..
  from Xml_keyword_lineno [OF k0] Xml_keyword_lineno [OF k1] g z k0 k1
  show ?thesis by simp
qed

section \<open>Typed dictionary items\<close>

lemma list_comp_Inr:
  "list_comp f xs = Inr ys \<Longrightarrow> length ys = length xs \<and> (\<forall>i<length xs. f (xs ! i) = Inr (ys ! i))"
proof (induction xs arbitrary: ys)
  case Nil
  then show ?case by simp
next
  case (Cons x xs)
  then obtain y ys' where "f x = Inr y" "list_comp f xs = Inr ys'" "ys = y # ys'"
    by (auto simp: ebind_Inr)
  with Cons.IH [of ys'] show ?case
    by (auto simp: nth_Cons split: nat.splits)
qed

lemma Json_typed_dict_item_required:
  "Json_typed_dict_item (PDict kvs) = Inr it \<Longrightarrow>
     required it = (case map_of kvs ''required'' of None \<Rightarrow> PNone | Some v \<Rightarrow> v)"
  by (auto simp: Json_typed_dict_item_def ebind_Inr py_get_def split: option.splits)

text \<open>
  C9. The items of a typed dictionary built by either builder are those of the source, in
  order, and the \<open>required\<close> of each is \<open>None\<close> when the source has no value, \<open>True\<close> for the
  boolean true of JSON and the string \<open>true\<close> of XML, \<open>False\<close> for the boolean false of JSON
  and the string \<open>false\<close> of XML.
\<close>

theorem typed_dict_required:
  "(Json_create_typed_dict_doc data = Inr doc \<longrightarrow> py_getitem data ''items'' = Inr (PList its) \<longrightarrow>
      length (td_items doc) = length its \<and>
      (\<forall>i<length its. \<forall>kvs. its ! i = PDict kvs \<longrightarrow>
         (map_of kvs ''required'' = None \<longrightarrow> required (td_items doc ! i) = PNone) \<and>
         (\<forall>b. map_of kvs ''required'' = Some (PBool b) \<longrightarrow>
               required (td_items doc ! i) = PBool b)))
   \<and> (Xml_create_typed_dict_doc elem = Inr xdoc \<longrightarrow>
      length (td_items xdoc) = length (el_findall elem [''items'', ''item'']) \<and>
      (\<forall>i<length (el_findall elem [''items'', ''item'']).
         (el_get (el_findall elem [''items'', ''item''] ! i) ''required'' = None \<longrightarrow>
            required (td_items xdoc ! i) = PNone) \<and>
         (el_get (el_findall elem [''items'', ''item''] ! i) ''required'' = Some ''true'' \<longrightarrow>
            required (td_items xdoc ! i) = PBool True) \<and>
         (el_get (el_findall elem [''items'', ''item''] ! i) ''required'' = Some ''false'' \<longrightarrow>
            required (td_items xdoc ! i) = PBool False)))"
proof (intro conjI impI)
  assume j: "Json_create_typed_dict_doc data = Inr doc" "py_getitem data ''items'' = Inr (PList its)"
  then obtain name d items where
    lc: "list_comp Json_typed_dict_item its = Inr items" and doc: "doc = TypedDictDoc name d items"
    by (auto simp: Json_create_typed_dict_doc_def ebind_Inr py_iter_def)
  note L = list_comp_Inr [OF lc]
  from L doc show "length (td_items doc) = length its" by simp
  show "\<forall>i<length its. \<forall>kvs. its ! i = PDict kvs \<longrightarrow>
         (map_of kvs ''required'' = None \<longrightarrow> required (td_items doc ! i) = PNone) \<and>
         (\<forall>b. map_of kvs ''required'' = Some (PBool b) \<longrightarrow>
               required (td_items doc ! i) = PBool b)"
  proof (intro allI impI)
    fix i kvs assume i: "i < length its" "its ! i = PDict kvs"
    with L have "Json_typed_dict_item (PDict kvs) = Inr (items ! i)" by auto
    then show "(map_of kvs ''required'' = None \<longrightarrow> required (td_items doc ! i) = PNone) \<and>
         (\<forall>b. map_of kvs ''required'' = Some (PBool b) \<longrightarrow>
               required (td_items doc ! i) = PBool b)"
      by (auto simp: doc dest: Json_typed_dict_item_required)
  qed
next
  assume x: "Xml_create_typed_dict_doc elem = Inr xdoc"
  then have it: "td_items xdoc = map Xml_typed_dict_item (el_findall elem [''items'', ''item''])"
    by (auto simp: Xml_create_typed_dict_doc_def Let_def ebind_Inr)
  then show "length (td_items xdoc) = length (el_findall elem [''items'', ''item''])"
    by simp
  show "\<forall>i<length (el_findall elem [''items'', ''item'']).
         (el_get (el_findall elem [''items'', ''item''] ! i) ''required'' = None \<longrightarrow>
            required (td_items xdoc ! i) = PNone) \<and>
         (el_get (el_findall elem [''items'', ''item''] ! i) ''required'' = Some ''true'' \<longrightarrow>
            required (td_items xdoc ! i) = PBool True) \<and>
         (el_get (el_findall elem [''items'', ''item''] ! i) ''required'' = Some ''false'' \<longrightarrow>
            required (td_items xdoc ! i) = PBool False)"
    unfolding it by (simp add: Xml_typed_dict_item_def)
qed


theorem typed_dict_required_witness:
  "(\<exists>doc. Json_create_typed_dict_doc sample_typed_dict_json = Inr doc
          \<and> map required (td_items doc) = [PNone, PBool True, PBool False])
   \<and> (\<exists>doc. Xml_create_typed_dict_doc sample_typed_dict_xml = Inr doc
          \<and> map required (td_items doc) = [PNone, PBool True, PBool False])"
proof -
  define its where "its = [PDict [(''key'', PStr ''x''), (''type'', PStr ''int'')],
                           PDict [(''key'', PStr ''y''), (''type'', PStr ''int''),
                                  (''required'', PBool True)],
                           PDict [(''key'', PStr ''z''), (''type'', PStr ''int''),
                                  (''required'', PBool False)]]"
  have gi: "py_getitem sample_typed_dict_json ''items'' = Inr (PList its)"
    by (simp add: sample_typed_dict_json_def py_getitem_def its_def)
  have "\<exists>doc. Json_create_typed_dict_doc sample_typed_dict_json = Inr doc"
    by (simp add: sample_typed_dict_json_def Json_create_typed_dict_doc_def py_getitem_def
        py_iter_def Json_typed_dict_item_def py_get_def)
  then obtain jd where jd: "Json_create_typed_dict_doc sample_typed_dict_json = Inr jd" ..
  have fa: "el_findall sample_typed_dict_xml [''items'', ''item'']
             = [Element ''item'' [(''key'', ''x''), (''type'', ''int'')] None [],
                Element ''item'' [(''key'', ''y''), (''type'', ''int''), (''required'', ''true'')]
                  None [],
                Element ''item'' [(''key'', ''z''), (''type'', ''int''), (''required'', ''false'')]
                  None []]"
    by (simp add: sample_typed_dict_xml_def)
  have "\<exists>doc. Xml_create_typed_dict_doc sample_typed_dict_xml = Inr doc"
    by (simp add: Xml_create_typed_dict_doc_def find_text_def el_find_def
        sample_typed_dict_xml_def)
  then obtain xd where xd: "Xml_create_typed_dict_doc sample_typed_dict_xml = Inr xd" ..
  note T = typed_dict_required [of sample_typed_dict_json jd its sample_typed_dict_xml xd]
  have lj: "length (td_items jd) = 3"
    and j0: "required (td_items jd ! 0) = PNone"
    and j1: "required (td_items jd ! 1) = PBool True"
    and j2: "required (td_items jd ! 2) = PBool False"
    using T jd gi by (simp_all add: its_def)
  have lx: "length (td_items xd) = 3"
    and x0: "required (td_items xd ! 0) = PNone"
    and x1: "required (td_items xd ! 1) = PBool True"
    and x2: "required (td_items xd ! 2) = PBool False"
    using T [unfolded fa] xd by (simp_all add: el_get_def)
  have three: "map f xs = [f (xs ! 0), f (xs ! 1), f (xs ! 2)]" if "length xs = 3"
    for f :: "TypedDictItem \<Rightarrow> pyval" and xs
    using that by (auto simp: list_eq_iff_nth_eq less_Suc_eq numeral_3_eq_3 numeral_2_eq_2)
  from three [OF lj, of required] three [OF lx, of required] jd xd j0 j1 j2 x0 x1 x2
  show ?thesis by simp
qed

section \<open>The reconstructor as a fold over the records\<close>

lemma for_loop_append:
  "for_loop f s (xs @ ys) = ebind (for_loop f s xs) (\<lambda>s'. for_loop f s' ys)"
  by (induction xs arbitrary: s) (auto simp: ebind_def split: sum.splits)

lemma apply_params_Nil [simp]: "apply_params spec [] = spec"
  by (simp add: apply_params_def)

lemma apply_params_Cons:
  "apply_params spec (p # ps)
     = apply_params (apply_param (p_name p) (p_kind p) (p_key p) (p_default p) (p_types p) spec) ps"
  by (simp add: apply_params_def)

lemma apply_params_snoc:
  "apply_params spec (ps @ [p])
     = apply_param (p_name p) (p_kind p) (p_key p) (p_default p) (p_types p) (apply_params spec ps)"
  by (simp add: apply_params_def)

lemma last_or_nonempty: "ys \<noteq> [] \<Longrightarrow> last_or d ys = last ys"
  by (cases ys) (simp_all add: last_or_def)

lemma last_or_simps [simp]:
  "last_or d [] = d" "last_or d (xs @ [x]) = x"
  by (simp_all add: last_or_nonempty) (simp add: last_or_def)

lemma last_or_Cons: "last_or d (x # xs) = last_or x xs"
  by (induction xs arbitrary: x) (simp_all add: last_or_def split: list.splits)

lemma apply_params_positional_only:
  "positional_only (apply_params spec ps)
     = positional_only spec @ map p_name (filter (\<lambda>p. p_kind p = PStr POSITIONAL_ONLY) ps)"
  by (induction ps rule: rev_induct) (simp_all add: apply_params_snoc apply_param_def set_group_def)

lemma apply_params_positional_or_named:
  "positional_or_named (apply_params spec ps)
     = positional_or_named spec @ map p_name (filter (\<lambda>p. p_kind p = PStr POSITIONAL_OR_NAMED) ps)"
  by (induction ps rule: rev_induct) (simp_all add: apply_params_snoc apply_param_def set_group_def)

lemma apply_params_named_only:
  "named_only (apply_params spec ps)
     = named_only spec @ map p_name (filter (\<lambda>p. p_kind p = PStr NAMED_ONLY) ps)"
  by (induction ps rule: rev_induct) (simp_all add: apply_params_snoc apply_param_def set_group_def)

lemma apply_params_var_positional:
  "var_positional (apply_params spec ps)
     = last_or (var_positional spec) (map p_name (filter (\<lambda>p. p_kind p = PStr VAR_POSITIONAL) ps))"
  by (induction ps rule: rev_induct) (simp_all add: apply_params_snoc apply_param_def set_group_def)

lemma apply_params_var_named:
  "var_named (apply_params spec ps)
     = last_or (var_named spec) (map p_name (filter (\<lambda>p. p_kind p = PStr VAR_NAMED) ps))"
  by (induction ps rule: rev_induct) (simp_all add: apply_params_snoc apply_param_def set_group_def)

lemma apply_params_defaults:
  "map_of (defaults (apply_params spec ps)) k
     = last_or (map_of (defaults spec) k)
         (map (\<lambda>p. Some (p_default p)) (filter (\<lambda>p. p_key p = k \<and> p_default p \<noteq> PNone) ps))"
  by (induction ps rule: rev_induct)
     (simp_all add: apply_params_snoc apply_param_def set_group_def update_conv')

lemma apply_params_types:
  "map_of (types (apply_params spec ps)) k
     = last_or (map_of (types spec) k) (map (\<lambda>p. Some (p_types p)) (filter (\<lambda>p. p_key p = k) ps))"
  by (induction ps rule: rev_induct)
     (simp_all add: apply_params_snoc apply_param_def set_group_def update_conv')

lemma for_loop_Json_Inr:
  "for_loop Json_arg_body spec recs = Inr s \<Longrightarrow>
     (\<forall>r\<in>set recs. Json_wellformed r) \<and> s = apply_params spec (map Json_param recs)"
proof (induction recs arbitrary: spec)
  case Nil
  then show ?case by simp
next
  case (Cons r recs)
  then obtain s1 where s1: "Json_arg_body spec r = Inr s1" "for_loop Json_arg_body s1 recs = Inr s"
    by (auto simp: ebind_Inr)
  from Json_arg_body_Inr [OF s1(1)] Cons.IH [OF s1(2)] show ?case
    by (simp add: apply_params_Cons Json_param_def)
qed

lemma for_loop_Json_wf:
  "\<forall>r\<in>set recs. Json_wellformed r \<Longrightarrow>
     for_loop Json_arg_body spec recs = Inr (apply_params spec (map Json_param recs))"
  by (induction recs arbitrary: spec)
     (simp_all add: Json_arg_body_wf apply_params_Cons Json_param_def)

lemma for_loop_Json_Inl: "for_loop Json_arg_body spec recs = Inl e \<Longrightarrow> \<not> is_DataError e"
  by (induction recs arbitrary: spec) (auto simp: ebind_Inl dest: Json_arg_body_Inl)

lemma set_group_same [simp]:
  "defaults (set_group n k spec) = defaults spec" "types (set_group n k spec) = types spec"
  by (simp_all add: set_group_def)

lemma dict_key_Xml_name [simp]: "dict_key (Xml_name arg) = Inr (Xml_name arg)"
  by (auto simp: Xml_name_def opt_str_def dict_key_def split: option.splits)

lemma dict_key_opt_str [simp]: "dict_key (opt_str x) = Inr (opt_str x)"
  by (cases x) (simp_all add: opt_str_def dict_key_def)

lemma Xml_arg_body_eq:
  "Xml_arg_body spec arg =
     (if \<not> Xml_has_name arg then Inr spec
      else if Xml_kind arg \<in> PStr ` set recognized_kinds
      then Inr (apply_param (Xml_name arg) (Xml_kind arg) (Xml_name arg) (Xml_default arg)
                  (Xml_types arg) spec)
      else Inl (KeyError (Xml_kind arg)))"
proof (cases "el_find arg ''name''")
  case None
  then show ?thesis by (simp add: Xml_arg_body_def Xml_has_name_def)
next
  case (Some name_elem)
  then have hn: "Xml_has_name arg" and nm: "opt_str (el_text name_elem) = Xml_name arg"
    by (simp_all add: Xml_has_name_def Xml_name_def)
  show ?thesis
  proof (cases "setters_getitem (Xml_kind arg)")
    case (Inl e)
    have "e = KeyError (Xml_kind arg)"
      using Inl by (auto simp: setters_getitem_def Xml_kind_def opt_str_def
          split: option.splits)
    moreover have "Xml_kind arg \<notin> PStr ` set recognized_kinds"
      using Inl setters_getitem_ok by fastforce
    ultimately show ?thesis
      using Inl hn by (simp add: Xml_arg_body_def Some Xml_kind_def)
  next
    case (Inr f)
    from setters_getitem_Inr(1) [OF Inr] have k: "Xml_kind arg \<in> PStr ` set recognized_kinds"
      by auto
    have f: "f n spec = set_group n (Xml_kind arg) spec" for n
      by (rule setters_getitem_Inr(2) [OF Inr])
    show ?thesis
      using hn k Inr
      by (cases "el_find arg ''default''")
         (simp_all add: Xml_arg_body_def Some Let_def nm f dict_setitem_def apply_param_def
           Xml_default_def Xml_types_def Xml_kind_def [symmetric])
  qed
qed

lemma for_loop_Xml:
  "for_loop Xml_arg_body spec args =
     (case filter Xml_bad_kind args of
        [] \<Rightarrow> Inr (apply_params spec (map Xml_param (filter Xml_has_name args)))
      | a # _ \<Rightarrow> Inl (KeyError (Xml_kind a)))"
  by (induction args arbitrary: spec)
     (simp_all add: Xml_arg_body_eq Xml_bad_kind_def apply_params_Cons Xml_param_def
        cong: list.case_cong)

lemma Xml_create_arguments_eq:
  "Xml_create_arguments elem =
     (case filter Xml_bad_kind (el_findall elem [''arguments'', ''arg'']) of
        [] \<Rightarrow> Inr (apply_params ArgumentSpec_init (map Xml_param (Xml_args elem)))
      | a # _ \<Rightarrow> Inl (KeyError (Xml_kind a)))"
  by (simp add: Xml_create_arguments_def for_loop_Xml Xml_args_def del: el_findall.simps
      cong: list.case_cong)

lemma Xml_create_arguments_Inr:
  "Xml_create_arguments elem = Inr s \<Longrightarrow>
     s = apply_params ArgumentSpec_init (map Xml_param (Xml_args elem))"
  by (auto simp: Xml_create_arguments_eq split: list.splits simp del: el_findall.simps)

lemma Json_create_arguments_Inr:
  "Json_create_arguments (PList recs) = Inr s \<Longrightarrow>
     (\<forall>r\<in>set recs. Json_wellformed r)
     \<and> s = apply_params ArgumentSpec_init (map Json_param recs)"
  by (simp add: Json_create_arguments_def py_iter_def for_loop_Json_Inr)

lemma init_fields [simp]:
  "positional_only ArgumentSpec_init = []" "positional_or_named ArgumentSpec_init = []"
  "var_positional ArgumentSpec_init = PNone" "named_only ArgumentSpec_init = []"
  "var_named ArgumentSpec_init = PNone" "defaults ArgumentSpec_init = []"
  "types ArgumentSpec_init = []"
  by (simp_all add: ArgumentSpec_init_def)

lemma param_fields [simp]:
  "p_name \<circ> Json_param = Json_name" "p_name \<circ> Xml_param = Xml_name"
  "p_name (Json_param r) = Json_name r" "p_kind (Json_param r) = Json_kind r"
  "p_key (Json_param r) = Json_key r" "p_default (Json_param r) = Json_default r"
  "p_types (Json_param r) = Json_types r"
  "p_name (Xml_param a) = Xml_name a" "p_kind (Xml_param a) = Xml_kind a"
  "p_key (Xml_param a) = Xml_name a" "p_default (Xml_param a) = Xml_default a"
  "p_types (Xml_param a) = Xml_types a"
  by (simp_all add: Json_param_def Xml_param_def fun_eq_iff)

section \<open>Groups, defaults and types of a reconstructed specification\<close>

text \<open>
  C2. When a reconstruction succeeds, each of the three ordered groups holds exactly the
  names of the records of its kind, in the order of the records; each of the two
  single-name slots holds the name of the last record of its kind (\<open>None\<close> when there is
  none). In XML the records are the \<open>arg\<close> elements that have a \<open>name\<close> child.
\<close>

theorem groups_in_order:
  "(Json_create_arguments (PList recs) = Inr s \<longrightarrow>
      positional_only s
        = map Json_name (filter (\<lambda>r. Json_kind r = PStr POSITIONAL_ONLY) recs)
    \<and> positional_or_named s
        = map Json_name (filter (\<lambda>r. Json_kind r = PStr POSITIONAL_OR_NAMED) recs)
    \<and> named_only s
        = map Json_name (filter (\<lambda>r. Json_kind r = PStr NAMED_ONLY) recs)
    \<and> var_positional s
        = last_or PNone (map Json_name (filter (\<lambda>r. Json_kind r = PStr VAR_POSITIONAL) recs))
    \<and> var_named s
        = last_or PNone (map Json_name (filter (\<lambda>r. Json_kind r = PStr VAR_NAMED) recs)))
   \<and> (Xml_create_arguments elem = Inr xs \<longrightarrow>
      positional_only xs
        = map Xml_name (filter (\<lambda>a. Xml_kind a = PStr POSITIONAL_ONLY) (Xml_args elem))
    \<and> positional_or_named xs
        = map Xml_name (filter (\<lambda>a. Xml_kind a = PStr POSITIONAL_OR_NAMED) (Xml_args elem))
    \<and> named_only xs
        = map Xml_name (filter (\<lambda>a. Xml_kind a = PStr NAMED_ONLY) (Xml_args elem))
    \<and> var_positional xs
        = last_or PNone (map Xml_name (filter (\<lambda>a. Xml_kind a = PStr VAR_POSITIONAL) (Xml_args elem)))
    \<and> var_named xs
        = last_or PNone (map Xml_name (filter (\<lambda>a. Xml_kind a = PStr VAR_NAMED) (Xml_args elem))))"
proof (intro conjI impI)
  assume "Json_create_arguments (PList recs) = Inr s"
  then have s: "s = apply_params ArgumentSpec_init (map Json_param recs)"
    by (simp add: Json_create_arguments_Inr)
  show "positional_only s
        = map Json_name (filter (\<lambda>r. Json_kind r = PStr POSITIONAL_ONLY) recs)"
    by (simp add: s apply_params_positional_only filter_map o_def)
  show "positional_or_named s
        = map Json_name (filter (\<lambda>r. Json_kind r = PStr POSITIONAL_OR_NAMED) recs)"
    by (simp add: s apply_params_positional_or_named filter_map o_def)
  show "named_only s = map Json_name (filter (\<lambda>r. Json_kind r = PStr NAMED_ONLY) recs)"
    by (simp add: s apply_params_named_only filter_map o_def)
  show "var_positional s
        = last_or PNone (map Json_name (filter (\<lambda>r. Json_kind r = PStr VAR_POSITIONAL) recs))"
    by (simp add: s apply_params_var_positional filter_map o_def)
  show "var_named s
        = last_or PNone (map Json_name (filter (\<lambda>r. Json_kind r = PStr VAR_NAMED) recs))"
    by (simp add: s apply_params_var_named filter_map o_def)
next
  assume "Xml_create_arguments elem = Inr xs"
  then have s: "xs = apply_params ArgumentSpec_init (map Xml_param (Xml_args elem))"
    by (rule Xml_create_arguments_Inr)
  show "positional_only xs
        = map Xml_name (filter (\<lambda>a. Xml_kind a = PStr POSITIONAL_ONLY) (Xml_args elem))"
    by (simp add: s apply_params_positional_only filter_map o_def)
  show "positional_or_named xs
        = map Xml_name (filter (\<lambda>a. Xml_kind a = PStr POSITIONAL_OR_NAMED) (Xml_args elem))"
    by (simp add: s apply_params_positional_or_named filter_map o_def)
  show "named_only xs
        = map Xml_name (filter (\<lambda>a. Xml_kind a = PStr NAMED_ONLY) (Xml_args elem))"
    by (simp add: s apply_params_named_only filter_map o_def)
  show "var_positional xs
        = last_or PNone (map Xml_name (filter (\<lambda>a. Xml_kind a = PStr VAR_POSITIONAL) (Xml_args elem)))"
    by (simp add: s apply_params_var_positional filter_map o_def)
  show "var_named xs
        = last_or PNone (map Xml_name (filter (\<lambda>a. Xml_kind a = PStr VAR_NAMED) (Xml_args elem)))"
    by (simp add: s apply_params_var_named filter_map o_def)
qed

lemma json_arg_views [simp]:
  "Json_name (json_arg n k t d) = PStr n" "Json_kind (json_arg n k t d) = PStr k"
  "Json_key (json_arg n k t d) = PStr n" "Json_default (json_arg n k t d) = d"
  "Json_types (json_arg n k t d) = map PStr t"
  "Json_wellformed (json_arg n k t d) \<longleftrightarrow> k \<in> set recognized_kinds"
  by (auto simp: json_arg_def Json_name_def Json_kind_def Json_key_def Json_default_def
      Json_types_def Json_wellformed_def py_getitem_def py_get_def py_iter_def dict_key_def)

lemma el_find_map_type:
  "List.find (\<lambda>c. el_tag c = x) (map (\<lambda>t. Element ''type'' [] (Some t) []) tys @ rest)
     = (if x = ''type'' \<and> tys \<noteq> [] then Some (Element ''type'' [] (Some (hd tys)) [])
        else List.find (\<lambda>c. el_tag c = x) rest)"
  by (induction tys) auto

lemma xml_arg_views [simp]:
  "Xml_has_name (xml_arg n k t d)" "Xml_name (xml_arg n k t d) = PStr n"
  "Xml_kind (xml_arg n k t d) = PStr k"
  "Xml_default (xml_arg n k t d) = (case d of None \<Rightarrow> PNone | Some x \<Rightarrow> PStr x)"
  "Xml_types (xml_arg n k t d) = map PStr t"
  "\<not> Xml_has_name (xml_marker k)"
  by (auto simp: xml_arg_def xml_marker_def Xml_has_name_def Xml_name_def Xml_kind_def
      Xml_default_def Xml_types_def el_find_def el_get_def opt_str_def str_or_def
      el_find_map_type filter_empty_conv comp_def split: option.splits)

lemma xml_kw_args [simp]:
  "el_findall (xml_kw args) [''arguments'', ''arg''] = filter (\<lambda>c. el_tag c = ''arg'') args"
  by (simp add: xml_kw_def)

lemma el_tag_arg [simp]: "el_tag (xml_arg n k t d) = ''arg''" "el_tag (xml_marker k) = ''arg''"
  by (simp_all add: xml_arg_def xml_marker_def)

theorem groups_in_order_witness:
  "(\<exists>s. Json_create_arguments (PList sample_args_json) = Inr s
        \<and> positional_only s = [PStr ''a'']
        \<and> positional_or_named s = [PStr ''b'', PStr ''c'']
        \<and> named_only s = [PStr ''k'', PStr ''m'']
        \<and> var_positional s = PStr ''w''
        \<and> var_named s = PStr ''kw'')
   \<and> (\<exists>s. Xml_create_arguments (xml_kw sample_args_xml) = Inr s
        \<and> positional_only s = [PStr ''a'']
        \<and> positional_or_named s = [PStr ''b'', PStr ''c'']
        \<and> named_only s = [PStr ''k'', PStr ''m'']
        \<and> var_positional s = PStr ''w''
        \<and> var_named s = PStr ''kw'')"
proof -
  have "\<forall>r\<in>set sample_args_json. Json_wellformed r"
    by (simp add: sample_args_json_def recognized_kinds_eq kind_defs)
  then obtain js where js: "Json_create_arguments (PList sample_args_json) = Inr js"
    by (simp add: Json_create_arguments_def py_iter_def for_loop_Json_wf)
  have "filter Xml_bad_kind (el_findall (xml_kw sample_args_xml) [''arguments'', ''arg'']) = []"
    by (simp add: sample_args_xml_def Xml_bad_kind_def recognized_kinds_eq kind_defs
        del: el_findall.simps)
  then obtain xs where xs: "Xml_create_arguments (xml_kw sample_args_xml) = Inr xs"
    by (simp add: Xml_create_arguments_eq del: el_findall.simps)
  have xa: "Xml_args (xml_kw sample_args_xml)
              = [xml_arg ''a'' ''POSITIONAL_ONLY'' [] None,
                 xml_arg ''b'' ''POSITIONAL_OR_NAMED'' [''int''] (Some ''1''),
                 xml_arg ''c'' ''POSITIONAL_OR_NAMED'' [] None,
                 xml_arg ''v'' ''VARIADIC_POSITIONAL'' [] None,
                 xml_arg ''w'' ''VARIADIC_POSITIONAL'' [] None,
                 xml_arg ''k'' ''NAMED_ONLY'' [''str'', ''None''] (Some ''None''),
                 xml_arg ''m'' ''NAMED_ONLY'' [] None,
                 xml_arg ''kw'' ''VARIADIC_NAMED'' [] None]"
    by (simp add: Xml_args_def sample_args_xml_def del: el_findall.simps)
  from groups_in_order [of sample_args_json js "xml_kw sample_args_xml" xs] js xs
  show ?thesis
    by (simp add: xa sample_args_json_def kind_defs last_or_Cons)
qed

lemma last_or_None_map_Some: "last_or None (map (\<lambda>x. Some (f x)) xs) = None \<longleftrightarrow> xs = []"
  by (induction xs rule: rev_induct) simp_all

lemma last_or_all_same:
  "xs \<noteq> [] \<Longrightarrow> \<forall>x\<in>set xs. f x = v \<Longrightarrow> last_or d (map f xs) = v"
  by (induction xs rule: rev_induct) simp_all

lemma Xml_default_PNone: "Xml_default a \<noteq> PNone \<longleftrightarrow> el_find a ''default'' \<noteq> None"
  by (simp add: Xml_default_def split: option.splits)

lemma params_defaults_dom:
  "map_of (defaults (apply_params ArgumentSpec_init (map f rs))) k \<noteq> None
     \<longleftrightarrow> (\<exists>r\<in>set rs. p_key (f r) = k \<and> p_default (f r) \<noteq> PNone)"
  by (auto simp: apply_params_defaults last_or_None_map_Some filter_empty_conv)

lemma params_types_entry:
  "map_of (types (apply_params ArgumentSpec_init (map f rs))) k
     = last_or None (map (\<lambda>r. Some (p_types (f r))) (filter (\<lambda>r. p_key (f r) = k) rs))"
  by (simp add: apply_params_types filter_map o_def)

lemma params_types_dom:
  "r \<in> set rs \<Longrightarrow> map_of (types (apply_params ArgumentSpec_init (map f rs))) (p_key (f r)) \<noteq> None"
  by (auto simp: params_types_entry last_or_None_map_Some filter_empty_conv)

lemma params_types_unique:
  assumes "r \<in> set rs" and "\<forall>r'\<in>set rs. p_key (f r') = p_key (f r) \<longrightarrow> r' = r"
  shows "map_of (types (apply_params ArgumentSpec_init (map f rs))) (p_key (f r))
           = Some (p_types (f r))"
proof -
  from assms(1) have "filter (\<lambda>r'. p_key (f r') = p_key (f r)) rs \<noteq> []"
    by (auto simp: filter_empty_conv)
  moreover from assms(2)
  have "\<forall>x\<in>set (filter (\<lambda>r'. p_key (f r') = p_key (f r)) rs). Some (p_types (f x)) = Some (p_types (f r))"
    by auto
  ultimately show ?thesis
    unfolding params_types_entry by (rule last_or_all_same)
qed

lemma Json_arg_body_no_types:
  assumes "\<not> isl (ebind (py_getitem (PDict kvs) ''name'') dict_key)"
    and "Json_kind_ok (PDict kvs)" and "map_of kvs ''types'' = None"
  shows "Json_arg_body S (PDict kvs) = Inl (KeyError (PStr ''types''))"
proof -
  from assms(1) obtain name key where
    n: "py_getitem (PDict kvs) ''name'' = Inr name" "dict_key name = Inr key"
    by (auto simp: not_isl_iff ebind_Inr)
  from assms(2) obtain k where
    k: "py_getitem (PDict kvs) ''kind'' = Inr (PStr k)" "k \<in> set recognized_kinds"
    by (auto simp: Json_kind_ok_def)
  from setters_getitem_ok [OF k(2)] obtain f where f: "setters_getitem (PStr k) = Inr f" ..
  obtain dflt where d: "py_get (PDict kvs) ''defaultValue'' PNone = Inr dflt"
    by (cases "map_of kvs ''defaultValue''") (simp_all add: py_get_def)
  from assms(3) have t: "py_getitem (PDict kvs) ''types'' = Inl (KeyError (PStr ''types''))"
    by (simp add: py_getitem_def)
  show ?thesis
    by (simp add: Json_arg_body_def Let_def n k f d t dict_setitem_def)
qed

text \<open>
  C3, as the code has it. When a reconstruction succeeds, the defaults have an entry for
  a name exactly when some record of that name supplied a default (in JSON a
  \<open>defaultValue\<close> other than null, in XML a \<open>default\<close> child); the types have an entry for
  the name of every record that is not a separator, and the entry of a name is the type
  tuple of the last record of that name, so of the record itself when its name occurs
  once: the empty tuple when that record names no type (in JSON an empty \<open>types\<close>, in XML
  no \<open>type\<close> child). The JSON reconstruction succeeds when every record is well-formed,
  and a JSON record without \<open>types\<close> makes it fail: with \<open>KeyError('types')\<close> when the
  record is a dictionary with a hashable name and one of the seven kinds and the
  records before it are well-formed.
\<close>

theorem defaults_and_types:
  "(Json_create_arguments (PList recs) = Inr s \<longrightarrow>
      (\<forall>k. map_of (defaults s) k \<noteq> None
            \<longleftrightarrow> (\<exists>r\<in>set recs. Json_key r = k \<and> Json_default r \<noteq> PNone))
    \<and> (\<forall>r\<in>set recs. \<not> Json_is_separator r \<longrightarrow> map_of (types s) (Json_key r) \<noteq> None)
    \<and> (\<forall>k. map_of (types s) k
             = last_or None (map (\<lambda>r. Some (Json_types r)) (filter (\<lambda>r. Json_key r = k) recs)))
    \<and> (\<forall>r\<in>set recs. (\<forall>r'\<in>set recs. Json_key r' = Json_key r \<longrightarrow> r' = r) \<longrightarrow>
             map_of (types s) (Json_key r) = Some (Json_types r)))
   \<and> (Xml_create_arguments elem = Inr xs \<longrightarrow>
      (\<forall>k. map_of (defaults xs) k \<noteq> None
            \<longleftrightarrow> (\<exists>a\<in>set (Xml_args elem). Xml_name a = k \<and> el_find a ''default'' \<noteq> None))
    \<and> (\<forall>a\<in>set (Xml_args elem). \<not> Xml_is_separator a \<longrightarrow> map_of (types xs) (Xml_name a) \<noteq> None)
    \<and> (\<forall>k. map_of (types xs) k
             = last_or None (map (\<lambda>a. Some (Xml_types a))
                 (filter (\<lambda>a. Xml_name a = k) (Xml_args elem))))
    \<and> (\<forall>a\<in>set (Xml_args elem). (\<forall>a'\<in>set (Xml_args elem). Xml_name a' = Xml_name a \<longrightarrow> a' = a) \<longrightarrow>
             map_of (types xs) (Xml_name a) = Some (Xml_types a)))
   \<and> ((\<forall>r\<in>set recs. Json_wellformed r) \<longrightarrow> (\<exists>s. Json_create_arguments (PList recs) = Inr s))
   \<and> ((\<exists>r\<in>set recs. isl (py_getitem r ''types'')) \<longrightarrow>
        isl (Json_create_arguments (PList recs)))
   \<and> ((\<forall>r\<in>set pre. Json_wellformed r)
        \<and> \<not> isl (ebind (py_getitem (PDict kvs) ''name'') dict_key)
        \<and> Json_kind_ok (PDict kvs) \<and> map_of kvs ''types'' = None \<longrightarrow>
        Json_create_arguments (PList (pre @ PDict kvs # post)) = Inl (KeyError (PStr ''types'')))"
proof (intro conjI impI)
  assume "Json_create_arguments (PList recs) = Inr s"
  then have s: "s = apply_params ArgumentSpec_init (map Json_param recs)"
    by (simp add: Json_create_arguments_Inr)
  show "\<forall>k. map_of (defaults s) k \<noteq> None
            \<longleftrightarrow> (\<exists>r\<in>set recs. Json_key r = k \<and> Json_default r \<noteq> PNone)"
    unfolding s params_defaults_dom by simp
  show "\<forall>r\<in>set recs. \<not> Json_is_separator r \<longrightarrow> map_of (types s) (Json_key r) \<noteq> None"
    unfolding s using params_types_dom [where f = Json_param and rs = recs] by simp
  show "\<forall>k. map_of (types s) k
             = last_or None (map (\<lambda>r. Some (Json_types r)) (filter (\<lambda>r. Json_key r = k) recs))"
    unfolding s params_types_entry by simp
  show "\<forall>r\<in>set recs. (\<forall>r'\<in>set recs. Json_key r' = Json_key r \<longrightarrow> r' = r) \<longrightarrow>
             map_of (types s) (Json_key r) = Some (Json_types r)"
    unfolding s using params_types_unique [where f = Json_param and rs = recs] by simp
next
  assume "Xml_create_arguments elem = Inr xs"
  then have s: "xs = apply_params ArgumentSpec_init (map Xml_param (Xml_args elem))"
    by (rule Xml_create_arguments_Inr)
  show "\<forall>k. map_of (defaults xs) k \<noteq> None
            \<longleftrightarrow> (\<exists>a\<in>set (Xml_args elem). Xml_name a = k \<and> el_find a ''default'' \<noteq> None)"
    unfolding s params_defaults_dom by (simp add: Xml_default_PNone)
  show "\<forall>a\<in>set (Xml_args elem). \<not> Xml_is_separator a \<longrightarrow> map_of (types xs) (Xml_name a) \<noteq> None"
    unfolding s using params_types_dom [where f = Xml_param and rs = "Xml_args elem"] by simp
  show "\<forall>k. map_of (types xs) k
             = last_or None (map (\<lambda>a. Some (Xml_types a))
                 (filter (\<lambda>a. Xml_name a = k) (Xml_args elem)))"
    unfolding s params_types_entry by simp
  show "\<forall>a\<in>set (Xml_args elem). (\<forall>a'\<in>set (Xml_args elem). Xml_name a' = Xml_name a \<longrightarrow> a' = a) \<longrightarrow>
             map_of (types xs) (Xml_name a) = Some (Xml_types a)"
    unfolding s using params_types_unique [where f = Xml_param and rs = "Xml_args elem"] by simp
next
  assume "\<forall>r\<in>set recs. Json_wellformed r"
  then show "\<exists>s. Json_create_arguments (PList recs) = Inr s"
    by (simp add: Json_create_arguments_def py_iter_def for_loop_Json_wf)
next
  assume "\<exists>r\<in>set recs. isl (py_getitem r ''types'')"
  then obtain r where r: "r \<in> set recs" "isl (py_getitem r ''types'')" ..
  from r(2) have "isl (ebind (py_getitem r ''types'') py_iter)"
    by (cases "py_getitem r ''types''") simp_all
  then have "\<not> Json_wellformed r"
    by (simp add: Json_wellformed_def)
  with r(1) have "\<not> (\<forall>r\<in>set recs. Json_wellformed r)"
    by blast
  then have "\<not> (\<exists>s. Json_create_arguments (PList recs) = Inr s)"
    by (auto dest: Json_create_arguments_Inr)
  then show "isl (Json_create_arguments (PList recs))"
    by (cases "Json_create_arguments (PList recs)") auto
next
  assume a: "(\<forall>r\<in>set pre. Json_wellformed r)
        \<and> \<not> isl (ebind (py_getitem (PDict kvs) ''name'') dict_key)
        \<and> Json_kind_ok (PDict kvs) \<and> map_of kvs ''types'' = None"
  then have "for_loop Json_arg_body ArgumentSpec_init pre
               = Inr (apply_params ArgumentSpec_init (map Json_param pre))"
    by (simp add: for_loop_Json_wf)
  with a show "Json_create_arguments (PList (pre @ PDict kvs # post))
                 = Inl (KeyError (PStr ''types''))"
    by (simp add: Json_create_arguments_def py_iter_def for_loop_append Json_arg_body_no_types)
qed



lemma sample_args_xml_ok: "\<exists>s. Xml_create_arguments (xml_kw sample_args_xml) = Inr s"
proof -
  have "filter Xml_bad_kind (el_findall (xml_kw sample_args_xml) [''arguments'', ''arg'']) = []"
    by (simp add: sample_args_xml_def Xml_bad_kind_def recognized_kinds_eq kind_defs
        del: el_findall.simps)
  then show ?thesis
    by (simp add: Xml_create_arguments_eq del: el_findall.simps)
qed

lemma sample_args_xml_named:
  "Xml_args (xml_kw sample_args_xml)
     = [xml_arg ''a'' ''POSITIONAL_ONLY'' [] None,
        xml_arg ''b'' ''POSITIONAL_OR_NAMED'' [''int''] (Some ''1''),
        xml_arg ''c'' ''POSITIONAL_OR_NAMED'' [] None,
        xml_arg ''v'' ''VARIADIC_POSITIONAL'' [] None,
        xml_arg ''w'' ''VARIADIC_POSITIONAL'' [] None,
        xml_arg ''k'' ''NAMED_ONLY'' [''str'', ''None''] (Some ''None''),
        xml_arg ''m'' ''NAMED_ONLY'' [] None,
        xml_arg ''kw'' ''VARIADIC_NAMED'' [] None]"
  by (simp add: Xml_args_def sample_args_xml_def del: el_findall.simps)

lemma xml_arg_default [simp]:
  "(\<exists>y. el_find (xml_arg n k t d) ''default'' = Some y) \<longleftrightarrow> d \<noteq> None"
  "el_find (xml_arg n k t d) ''default'' = None \<longleftrightarrow> d = None"
  using xml_arg_views(4) [of n k t d] Xml_default_PNone [of "xml_arg n k t d"]
  by (cases d; simp)+

theorem defaults_and_types_witness:
  "(\<exists>s. Json_create_arguments (PList sample_args_json) = Inr s
        \<and> map_of (defaults s) (PStr ''b'') \<noteq> None \<and> map_of (defaults s) (PStr ''a'') = None
        \<and> map_of (types s) (PStr ''b'') = Some [PStr ''int'']
        \<and> map_of (types s) (PStr ''a'') = Some [])
   \<and> (\<exists>s. Xml_create_arguments (xml_kw sample_args_xml) = Inr s
        \<and> map_of (defaults s) (PStr ''b'') \<noteq> None \<and> map_of (defaults s) (PStr ''a'') = None
        \<and> map_of (types s) (PStr ''b'') = Some [PStr ''int'']
        \<and> map_of (types s) (PStr ''a'') = Some [])
   \<and> Json_create_arguments
        (PList [json_arg ''a'' ''POSITIONAL_ONLY'' [] PNone,
                PDict [(''name'', PStr ''x''), (''kind'', PStr ''POSITIONAL_OR_NAMED'')]])
     = Inl (KeyError (PStr ''types''))
   \<and> isl (Json_create_arguments
             (PList [PDict [(''name'', PStr ''x''), (''kind'', PStr ''POSITIONAL_OR_NAMED'')]]))"
proof -
  have wf: "\<forall>r\<in>set sample_args_json. Json_wellformed r"
    by (simp add: sample_args_json_def recognized_kinds_eq kind_defs)
  from defaults_and_types [where recs = sample_args_json, THEN conjunct2, THEN conjunct2,
      THEN conjunct1, THEN mp, OF wf]
  obtain js where js: "Json_create_arguments (PList sample_args_json) = Inr js" ..
  from sample_args_xml_ok obtain xs where
    xs: "Xml_create_arguments (xml_kw sample_args_xml) = Inr xs" ..
  note T = defaults_and_types [where recs = sample_args_json and s = js
      and elem = "xml_kw sample_args_xml" and xs = xs, unfolded sample_args_xml_named]
  note J = T [THEN conjunct1, THEN mp, OF js]
  note Jd = J [THEN conjunct1, THEN spec]
  note Jt = J [THEN conjunct2, THEN conjunct2, THEN conjunct1, THEN spec]
  have j: "map_of (defaults js) (PStr ''b'') \<noteq> None" "map_of (defaults js) (PStr ''a'') = None"
    "map_of (types js) (PStr ''b'') = Some [PStr ''int'']"
    "map_of (types js) (PStr ''a'') = Some []"
    using Jd [of "PStr ''b''"] Jd [of "PStr ''a''"] Jt [of "PStr ''b''"] Jt [of "PStr ''a''"]
    by (simp_all add: sample_args_json_def last_or_Cons)
  note X = T [THEN conjunct2, THEN conjunct1, THEN mp, OF xs]
  note Xd = X [THEN conjunct1, THEN spec]
  note Xt = X [THEN conjunct2, THEN conjunct2, THEN conjunct1, THEN spec]
  have x: "map_of (defaults xs) (PStr ''b'') \<noteq> None" "map_of (defaults xs) (PStr ''a'') = None"
    "map_of (types xs) (PStr ''b'') = Some [PStr ''int'']"
    "map_of (types xs) (PStr ''a'') = Some []"
    using Xd [of "PStr ''b''"] Xd [of "PStr ''a''"] Xt [of "PStr ''b''"] Xt [of "PStr ''a''"]
    by (simp_all add: last_or_Cons)
  let ?kvs = "[(''name'', PStr ''x''), (''kind'', PStr ''POSITIONAL_OR_NAMED'')]"
  have f: "Json_create_arguments (PList [json_arg ''a'' ''POSITIONAL_ONLY'' [] PNone, PDict ?kvs])
             = Inl (KeyError (PStr ''types''))"
    using defaults_and_types [where pre = "[json_arg ''a'' ''POSITIONAL_ONLY'' [] PNone]"
        and kvs = ?kvs and post = "[]", THEN conjunct2, THEN conjunct2, THEN conjunct2,
        THEN conjunct2]
    by (simp add: Json_kind_ok_def py_getitem_def dict_key_def recognized_kinds_eq kind_defs)
  have e: "isl (Json_create_arguments (PList [PDict ?kvs]))"
    using defaults_and_types [where recs = "[PDict ?kvs]", THEN conjunct2, THEN conjunct2,
        THEN conjunct2, THEN conjunct1]
    by (simp add: py_getitem_def)
  from j x js xs f e show ?thesis by simp
qed

text \<open>
  C3 as stated fails: a JSON record that is no separator and supplies no \<open>types\<close> gets
  no types entry, the empty tuple or other; the reconstruction raises \<open>KeyError\<close>.
\<close>

theorem missing_types_counterexample:
  "Json_create_arguments
     (PList [PDict [(''name'', PStr ''x''), (''kind'', PStr ''POSITIONAL_OR_NAMED'')]])
     = Inl (KeyError (PStr ''types''))"
  by (simp add: Json_create_arguments_def py_iter_def Json_arg_body_def py_getitem_def
      py_get_def setters_getitem_def setters_def kind_defs Let_def)

section \<open>Separator records\<close>









section \<open>Unrecognized kinds\<close>

lemma setters_getitem_unknown:
  "k \<notin> set recognized_kinds \<Longrightarrow> setters_getitem (PStr k) = Inl (KeyError (PStr k))"
  by (simp add: setters_getitem_def recognized_kinds_def map_of_eq_None_iff [THEN iffD2])

lemma Json_arg_body_unknown:
  "py_getitem r ''name'' = Inr n \<Longrightarrow> py_getitem r ''kind'' = Inr (PStr k) \<Longrightarrow>
     k \<notin> set recognized_kinds \<Longrightarrow> Json_arg_body spec r = Inl (KeyError (PStr k))"
  by (simp add: Json_arg_body_def setters_getitem_unknown)

lemma Json_create_arguments_Inl: "Json_create_arguments args = Inl e \<Longrightarrow> \<not> is_DataError e"
  by (auto simp: Json_create_arguments_def ebind_Inl dest: py_iter_Inl for_loop_Json_Inl)

lemma Json_create_arguments_ok:
  "(\<exists>s. Json_create_arguments (PList recs) = Inr s) \<longleftrightarrow> (\<forall>r\<in>set recs. Json_wellformed r)"
  by (auto simp: Json_create_arguments_def py_iter_def for_loop_Json_wf dest: for_loop_Json_Inr)

lemma Xml_bad_kind_fun:
  "Xml_bad_kind = (\<lambda>a. Xml_has_name a \<and> Xml_kind a \<notin> PStr ` set recognized_kinds)"
  by (simp add: fun_eq_iff Xml_bad_kind_def)

lemma Xml_bad_kind_empty:
  "filter Xml_bad_kind (el_findall elem [''arguments'', ''arg'']) = []
     \<longleftrightarrow> (\<forall>a\<in>set (Xml_args elem). Xml_kind_ok a)"
  by (auto simp: filter_empty_conv Xml_bad_kind_def Xml_args_def Xml_kind_ok_def
      simp del: el_findall.simps)

lemma setters_getitem_bad:
  "v \<notin> PStr ` set recognized_kinds \<Longrightarrow>
     setters_getitem v = Inl (if isl (dict_key v) then TypeError else KeyError v)"
proof (cases v)
  case (PStr k)
  assume "v \<notin> PStr ` set recognized_kinds"
  with PStr have "k \<notin> set recognized_kinds" by auto
  with PStr show ?thesis by (simp add: setters_getitem_unknown dict_key_def)
qed (simp_all add: setters_getitem_def dict_key_def)

lemma Json_first_failure:
  assumes "\<forall>r\<in>set pre. Json_wellformed r" and "\<And>S. Json_arg_body S r = Inl e"
  shows "Json_create_arguments (PList (pre @ r # post)) = Inl e"
  using assms
  by (simp add: Json_create_arguments_def py_iter_def for_loop_append for_loop_Json_wf)

text \<open>
  C4, as the code has it. Neither \<open>_create_arguments\<close> ever raises a \<open>DataError\<close>. A JSON
  sequence with a record whose kind is not one of the seven strings fails. When the
  records before such a record are well-formed, the failure is that of the first
  operation of the loop body that fails on it: \<open>TypeError\<close> for a record that is not a
  dictionary, \<open>KeyError('name')\<close> for one without a name, and for one with a name
  \<open>KeyError('kind')\<close> when it has no kind, \<open>TypeError\<close> when its kind is unhashable, and
  else the \<open>KeyError\<close> of the \<open>setters\<close> lookup, carrying the kind. The JSON reconstruction
  succeeds exactly when every record is well-formed (a dictionary with a hashable name,
  one of the seven kinds and iterable types). The XML reconstruction looks only at the
  \<open>arg\<close> elements with a \<open>name\<close> child: it fails with the \<open>KeyError\<close> carrying the kind
  (\<open>None\<close> for a missing attribute) of the first of them whose kind is not one of the
  seven, and succeeds exactly when there is none.
\<close>

theorem unknown_kind_fails:
  "(\<forall>e. Json_create_arguments args = Inl e \<longrightarrow> \<not> is_DataError e)
   \<and> (\<forall>e. Xml_create_arguments elem = Inl e \<longrightarrow> \<not> is_DataError e)
   \<and> ((\<exists>r\<in>set recs. \<not> Json_kind_ok r) \<longrightarrow> isl (Json_create_arguments (PList recs)))
   \<and> ((\<forall>r\<in>set pre. Json_wellformed r) \<longrightarrow>
        ((\<forall>kvs. r \<noteq> PDict kvs) \<longrightarrow>
           Json_create_arguments (PList (pre @ r # post)) = Inl TypeError)
      \<and> (\<forall>kvs. r = PDict kvs \<and> map_of kvs ''name'' = None \<longrightarrow>
           Json_create_arguments (PList (pre @ r # post)) = Inl (KeyError (PStr ''name'')))
      \<and> (\<forall>kvs n. r = PDict kvs \<and> map_of kvs ''name'' = Some n \<and> map_of kvs ''kind'' = None \<longrightarrow>
           Json_create_arguments (PList (pre @ r # post)) = Inl (KeyError (PStr ''kind'')))
      \<and> (\<forall>kvs n v. r = PDict kvs \<and> map_of kvs ''name'' = Some n \<and> map_of kvs ''kind'' = Some v
             \<and> v \<notin> PStr ` set recognized_kinds \<longrightarrow>
           Json_create_arguments (PList (pre @ r # post))
             = Inl (if isl (dict_key v) then TypeError else KeyError v)))
   \<and> ((\<exists>s. Json_create_arguments (PList recs) = Inr s) \<longleftrightarrow> (\<forall>r\<in>set recs. Json_wellformed r))
   \<and> (\<forall>a rest. filter (\<lambda>a. \<not> Xml_kind_ok a) (Xml_args elem) = a # rest \<longrightarrow>
         Xml_create_arguments elem = Inl (KeyError (Xml_kind a)))
   \<and> ((\<exists>s. Xml_create_arguments elem = Inr s) \<longleftrightarrow> (\<forall>a\<in>set (Xml_args elem). Xml_kind_ok a))"
proof (intro conjI allI impI)
  fix e assume "Json_create_arguments args = Inl e"
  then show "\<not> is_DataError e" by (rule Json_create_arguments_Inl)
next
  fix e assume "Xml_create_arguments elem = Inl e"
  then show "\<not> is_DataError e"
    by (auto simp: Xml_create_arguments_eq is_DataError_def split: list.splits
        simp del: el_findall.simps)
next
  assume "\<exists>r\<in>set recs. \<not> Json_kind_ok r"
  then have "\<not> (\<forall>r\<in>set recs. Json_wellformed r)"
    by (auto simp: Json_kind_ok_def Json_wellformed_def)
  then have "\<not> (\<exists>s. Json_create_arguments (PList recs) = Inr s)"
    using Json_create_arguments_ok [of recs] by blast
  then show "isl (Json_create_arguments (PList recs))"
    by (cases "Json_create_arguments (PList recs)") auto
next
  assume pre: "\<forall>r\<in>set pre. Json_wellformed r" and r: "\<forall>kvs. r \<noteq> PDict kvs"
  from r have "Json_arg_body S r = Inl TypeError" for S
    by (cases r) (simp_all add: Json_arg_body_def py_getitem_def)
  with pre show "Json_create_arguments (PList (pre @ r # post)) = Inl TypeError"
    by (rule Json_first_failure)
next
  fix kvs
  assume pre: "\<forall>r\<in>set pre. Json_wellformed r"
    and r: "r = PDict kvs \<and> map_of kvs ''name'' = None"
  then have "Json_arg_body S r = Inl (KeyError (PStr ''name''))" for S
    by (simp add: Json_arg_body_def py_getitem_def)
  with pre show "Json_create_arguments (PList (pre @ r # post)) = Inl (KeyError (PStr ''name''))"
    by (rule Json_first_failure)
next
  fix kvs n
  assume pre: "\<forall>r\<in>set pre. Json_wellformed r"
    and r: "r = PDict kvs \<and> map_of kvs ''name'' = Some n \<and> map_of kvs ''kind'' = None"
  then have "Json_arg_body S r = Inl (KeyError (PStr ''kind''))" for S
    by (simp add: Json_arg_body_def py_getitem_def)
  with pre show "Json_create_arguments (PList (pre @ r # post)) = Inl (KeyError (PStr ''kind''))"
    by (rule Json_first_failure)
next
  fix kvs n v
  assume pre: "\<forall>r\<in>set pre. Json_wellformed r"
    and r: "r = PDict kvs \<and> map_of kvs ''name'' = Some n \<and> map_of kvs ''kind'' = Some v
             \<and> v \<notin> PStr ` set recognized_kinds"
  then have "Json_arg_body S r = Inl (if isl (dict_key v) then TypeError else KeyError v)" for S
    by (simp add: Json_arg_body_def py_getitem_def setters_getitem_bad)
  with pre show "Json_create_arguments (PList (pre @ r # post))
                   = Inl (if isl (dict_key v) then TypeError else KeyError v)"
    by (rule Json_first_failure)
next
  show "(\<exists>s. Json_create_arguments (PList recs) = Inr s) \<longleftrightarrow> (\<forall>r\<in>set recs. Json_wellformed r)"
    by (rule Json_create_arguments_ok)
next
  fix a rest assume "filter (\<lambda>a. \<not> Xml_kind_ok a) (Xml_args elem) = a # rest"
  then have "filter Xml_bad_kind (el_findall elem [''arguments'', ''arg'']) = a # rest"
    by (simp add: Xml_args_def Xml_bad_kind_fun Xml_kind_ok_def del: el_findall.simps)
  then show "Xml_create_arguments elem = Inl (KeyError (Xml_kind a))"
    by (simp add: Xml_create_arguments_eq del: el_findall.simps)
next
  show "(\<exists>s. Xml_create_arguments elem = Inr s) \<longleftrightarrow> (\<forall>a\<in>set (Xml_args elem). Xml_kind_ok a)"
    unfolding Xml_bad_kind_empty [symmetric]
    by (auto simp: Xml_create_arguments_eq split: list.splits simp del: el_findall.simps)
qed

text \<open>
  C4 as stated fails: an unknown kind raises \<open>KeyError\<close>, not a \<open>DataError\<close>; a JSON record
  of a recognized kind that lacks \<open>types\<close> fails; an XML \<open>arg\<close> of an unknown kind
  without a \<open>name\<close> child is skipped and the reconstruction succeeds.
\<close>

theorem unknown_kind_counterexample:
  "Json_create_arguments
     (PList [PDict [(''name'', PStr ''x''), (''kind'', PStr ''BOGUS''), (''types'', PList [])]])
     = Inl (KeyError (PStr ''BOGUS''))
   \<and> Json_create_arguments
       (PList [PDict [(''name'', PStr ''_''), (''kind'', PStr ''POSITIONAL_ONLY_SEPARATOR'')]])
     = Inl (KeyError (PStr ''types''))
   \<and> Xml_create_arguments
       (Element ''kw'' [] None
          [Element ''arguments'' [] None [Element ''arg'' [(''kind'', ''BOGUS'')] None []]])
     = Inr ArgumentSpec_init"
  by (simp add: Json_create_arguments_def py_iter_def Json_arg_body_def py_getitem_def
      py_get_def setters_getitem_def setters_def kind_defs Let_def
      Xml_create_arguments_def Xml_arg_body_def el_find_def)


theorem unknown_kind_fails_witness:
  "Json_create_arguments
     (PList [json_arg ''a'' ''POSITIONAL_ONLY'' [] PNone, json_arg ''x'' ''BOGUS'' [] PNone,
             json_arg ''b'' ''POSITIONAL_OR_NAMED'' [] PNone])
     = Inl (KeyError (PStr ''BOGUS''))
   \<and> \<not> is_DataError (KeyError (PStr ''BOGUS''))
   \<and> Json_create_arguments
        (PList [json_arg ''a'' ''POSITIONAL_ONLY'' [] PNone,
                PDict [(''name'', PStr ''x''), (''kind'', PList [])]])
     = Inl TypeError
   \<and> Json_create_arguments
        (PList [json_arg ''a'' ''POSITIONAL_ONLY'' [] PNone, PDict [(''name'', PStr ''x'')]])
     = Inl (KeyError (PStr ''kind''))
   \<and> Json_create_arguments
        (PList [json_arg ''a'' ''POSITIONAL_ONLY'' [] PNone, PDict [(''kind'', PStr ''BOGUS'')]])
     = Inl (KeyError (PStr ''name''))
   \<and> Json_create_arguments
        (PList [json_arg ''a'' ''POSITIONAL_ONLY'' [] PNone, PStr ''BOGUS''])
     = Inl TypeError
   \<and> isl (Json_create_arguments (PList [json_arg ''x'' ''BOGUS'' [] PNone]))
   \<and> (\<exists>s. Json_create_arguments (PList sample_args_json) = Inr s)
   \<and> Xml_create_arguments
        (xml_kw [xml_arg ''a'' ''POSITIONAL_ONLY'' [] None, xml_arg ''x'' ''BOGUS'' [] None])
     = Inl (KeyError (PStr ''BOGUS''))
   \<and> (\<exists>s. Xml_create_arguments (xml_kw sample_args_xml) = Inr s)"
proof -
  let ?a = "json_arg ''a'' ''POSITIONAL_ONLY'' [] PNone"
  let ?b = "json_arg ''b'' ''POSITIONAL_OR_NAMED'' [] PNone"
  let ?x = "json_arg ''x'' ''BOGUS'' [] PNone"
  let ?xbad = "xml_kw [xml_arg ''a'' ''POSITIONAL_ONLY'' [] None, xml_arg ''x'' ''BOGUS'' [] None]"
  have bogus: "PStr ''BOGUS'' \<notin> PStr ` set recognized_kinds"
    "PList [] \<notin> PStr ` set recognized_kinds"
    by (auto simp: recognized_kinds_eq kind_defs)
  have wa: "\<forall>r\<in>set [?a]. Json_wellformed r"
    by (simp add: recognized_kinds_eq kind_defs)
  note F = unknown_kind_fails [THEN conjunct2, THEN conjunct2, THEN conjunct2, THEN conjunct1,
      THEN mp, OF wa]
  have 1: "Json_create_arguments (PList [?a, ?x, ?b]) = Inl (KeyError (PStr ''BOGUS''))"
    using F [of ?x "[?b]", THEN conjunct2, THEN conjunct2, THEN conjunct2, THEN spec, THEN spec,
        THEN spec, of "[(''name'', PStr ''x''), (''types'', PList []), (''defaultValue'', PNone),
                        (''kind'', PStr ''BOGUS'')]" "PStr ''x''" "PStr ''BOGUS''"] bogus
    by (simp add: json_arg_def dict_key_def)
  from unknown_kind_fails [of "PList [?a, ?x, ?b]", THEN conjunct1] 1
  have 2: "\<not> is_DataError (KeyError (PStr ''BOGUS''))"
    by blast
  have 3: "Json_create_arguments (PList [?a, PDict [(''name'', PStr ''x''), (''kind'', PList [])]])
             = Inl TypeError"
    using F [of "PDict [(''name'', PStr ''x''), (''kind'', PList [])]" "[]",
        THEN conjunct2, THEN conjunct2, THEN conjunct2, THEN spec, THEN spec, THEN spec,
        of "[(''name'', PStr ''x''), (''kind'', PList [])]" "PStr ''x''" "PList []"] bogus
    by (simp add: dict_key_def)
  have 4: "Json_create_arguments (PList [?a, PDict [(''name'', PStr ''x'')]])
             = Inl (KeyError (PStr ''kind''))"
    using F [of "PDict [(''name'', PStr ''x'')]" "[]",
        THEN conjunct2, THEN conjunct2, THEN conjunct1, THEN spec, THEN spec,
        of "[(''name'', PStr ''x'')]" "PStr ''x''"]
    by simp
  have 5: "Json_create_arguments (PList [?a, PDict [(''kind'', PStr ''BOGUS'')]])
             = Inl (KeyError (PStr ''name''))"
    using F [of "PDict [(''kind'', PStr ''BOGUS'')]" "[]",
        THEN conjunct2, THEN conjunct1, THEN spec, of "[(''kind'', PStr ''BOGUS'')]"]
    by simp
  have 6: "Json_create_arguments (PList [?a, PStr ''BOGUS'']) = Inl TypeError"
    using F [of "PStr ''BOGUS''" "[]", THEN conjunct1] by simp
  have 7: "isl (Json_create_arguments (PList [?x]))"
    using unknown_kind_fails [of _ _ "[?x]", THEN conjunct2, THEN conjunct2, THEN conjunct1]
    by (auto simp: Json_kind_ok_def json_arg_def py_getitem_def recognized_kinds_eq kind_defs)
  have 8: "\<exists>s. Json_create_arguments (PList sample_args_json) = Inr s"
    using unknown_kind_fails [of _ _ sample_args_json, THEN conjunct2, THEN conjunct2,
        THEN conjunct2, THEN conjunct2, THEN conjunct1]
    by (simp add: sample_args_json_def recognized_kinds_eq kind_defs)
  have xa: "Xml_args ?xbad
              = [xml_arg ''a'' ''POSITIONAL_ONLY'' [] None, xml_arg ''x'' ''BOGUS'' [] None]"
    by (simp add: Xml_args_def del: el_findall.simps)
  have 9: "Xml_create_arguments ?xbad = Inl (KeyError (PStr ''BOGUS''))"
    using unknown_kind_fails [of _ ?xbad, THEN conjunct2, THEN conjunct2, THEN conjunct2,
        THEN conjunct2, THEN conjunct2, THEN conjunct1, THEN spec, THEN spec,
        of "xml_arg ''x'' ''BOGUS'' [] None" "[]"]
    by (simp add: xa Xml_kind_ok_def recognized_kinds_eq kind_defs)
  have 10: "\<exists>s. Xml_create_arguments (xml_kw sample_args_xml) = Inr s"
    using unknown_kind_fails [of _ "xml_kw sample_args_xml", THEN conjunct2, THEN conjunct2,
        THEN conjunct2, THEN conjunct2, THEN conjunct2, THEN conjunct2]
    by (simp add: sample_args_xml_named Xml_kind_ok_def recognized_kinds_eq kind_defs)
  from 1 2 3 4 5 6 7 8 9 10 show ?thesis by blast
qed

section \<open>The end-to-end scenario\<close>

lemmas json_eval = Json_build_from_dict_def Json_create_keyword_def Json_create_data_types_def
  Json_create_arguments_def Json_arg_body_def py_getitem_def py_get_def py_iter_def py_int_def
  setters_getitem_def setters_def kind_defs dict_setitem_def dict_key_def ArgumentSpec_init_def
  Let_def

text \<open>
  C5 as stated fails: the separator record of the scenario has no \<open>types\<close>, and
  \<open>arg['types']\<close> raises \<open>KeyError\<close>.
\<close>

theorem run_document_counterexample:
  "Json_build_from_dict
     (run_document
        [PDict [(''name'', PStr ''_''), (''kind'', PStr ''POSITIONAL_ONLY_SEPARATOR'')],
         PDict [(''name'', PStr ''y''), (''kind'', PStr ''POSITIONAL_OR_NAMED''),
                (''types'', PList [PStr ''int'']), (''defaultValue'', PInt 5)]])
     = Inl (KeyError (PStr ''types''))"
  by (simp add: run_document_def json_eval)

text \<open>
  C5, as the code has it. With \<open>"types": []\<close> on the separator record the document is
  built, and the parameters of its keyword have no positional-only name, the
  positional-or-named name \<open>y\<close>, the default \<open>5\<close> for \<open>y\<close>, and the types \<open>()\<close> for \<open>_\<close> and
  \<open>("int",)\<close> for \<open>y\<close>.
\<close>

theorem run_document_built:
  "Json_build_from_dict
     (run_document
        [PDict [(''name'', PStr ''_''), (''kind'', PStr ''POSITIONAL_ONLY_SEPARATOR''),
                (''types'', PList [])],
         PDict [(''name'', PStr ''y''), (''kind'', PStr ''POSITIONAL_OR_NAMED''),
                (''types'', PList [PStr ''int'']), (''defaultValue'', PInt 5)]])
     = Inr \<lparr>lib_name = PStr ''Lib'', lib_type = PStr ''LIBRARY'', lib_version = PStr ''1.0'',
            lib_doc = PStr ''A library.'', lib_scope = PStr ''GLOBAL'',
            lib_doc_format = PStr ''ROBOT'', lib_source = PStr ''Lib.py'', lib_lineno = 1,
            lib_inits = [],
            lib_keywords =
              [\<lparr>kw_name = PStr ''Run'',
                kw_args =
                  \<lparr>positional_only = [], positional_or_named = [PStr ''y''],
                   var_positional = PNone, named_only = [], var_named = PNone,
                   defaults = [(PStr ''y'', PInt 5)],
                   types = [(PStr ''_'', []), (PStr ''y'', [PStr ''int''])]\<rparr>,
                kw_doc = PStr ''Runs.'', kw_shortdoc = PStr ''Runs.'', kw_tags = PList [],
                kw_source = PStr ''Lib.py'', kw_lineno = 3\<rparr>],
            lib_data_types = {}\<rparr>"
  by (simp add: run_document_def json_eval)

end
